theory Spec2Isabelle
  imports Complex_Main "HOL-Library.AList"
begin

section \<open>JavaScript numbers\<close>

text \<open>
  The numbers of \<^verbatim>\<open>materials-aggregator.ts\<close> are JavaScript numbers, IEEE doubles.

  Quantities, yields, stack sizes and item values are SQLite \<^verbatim>\<open>INTEGER\<close> columns that
  sql.js hands over as numbers. A double that holds an integer is modelled by that
  integer, and the sums and products of such numbers are rounded the way the hardware
  rounds them: to the nearest double, ties to even (\<open>to_double\<close>). Up to \<open>2 ^ 53\<close> in
  absolute value every integer is a double and this arithmetic is exact. The overflow to
  an infinity, from \<open>2 ^ 1024\<close> on, is beyond what 64-bit columns and their sums reach and
  is not modelled.

  The scores are fractions. The model keeps the special values that the code reaches
  through a division by zero (the two infinities and NaN) and takes the finite values as
  exact reals: there the rounding, the overflow of finite operations and the sign of zero
  are not modelled, and a statement about the value of a score is a statement about the
  exact value of the code's formula.
\<close>

text \<open>The number of binary digits of a positive integer.\<close>

function bit_length :: "int \<Rightarrow> nat" where
  "bit_length n = (if n \<le> 0 then 0 else Suc (bit_length (n div 2)))"
  by pat_completeness auto
termination
  by (relation "measure nat") auto

declare bit_length.simps [simp del]

text \<open>
  The double nearest to an integer: the integer itself up to \<open>2 ^ 53\<close>; beyond, the
  53 leading binary digits, rounded to nearest with ties to the even mantissa.
\<close>

definition to_double :: "int \<Rightarrow> int" where
  "to_double n =
     (if \<bar>n\<bar> \<le> 2 ^ 53 then n
      else
        let k = bit_length \<bar>n\<bar> - 53;
            q = \<bar>n\<bar> div 2 ^ k;
            r = \<bar>n\<bar> mod 2 ^ k;
            q' = (if 2 ^ k < 2 * r \<or> (2 * r = 2 ^ k \<and> odd q) then q + 1 else q)
        in sgn n * (q' * 2 ^ k))"

text \<open>\<^verbatim>\<open>a + b\<close> and \<^verbatim>\<open>a * b\<close> on two doubles that hold integers.\<close>

definition js_plus :: "int \<Rightarrow> int \<Rightarrow> int" where
  "js_plus a b = to_double (a + b)"

definition js_times :: "int \<Rightarrow> int \<Rightarrow> int" where
  "js_times a b = to_double (a * b)"

text \<open>\<^verbatim>\<open>values.reduce((sum, qty) => sum + qty, 0)\<close>\<close>

definition js_sum :: "int list \<Rightarrow> int" where
  "js_sum xs = foldl js_plus 0 xs"

datatype jsnum = Fin real | PInf | NInf | NaN

fun js_neg :: "jsnum \<Rightarrow> jsnum" where
  "js_neg (Fin a) = Fin (- a)"
| "js_neg PInf = NInf"
| "js_neg NInf = PInf"
| "js_neg NaN = NaN"

fun js_add :: "jsnum \<Rightarrow> jsnum \<Rightarrow> jsnum" where
  "js_add NaN _ = NaN"
| "js_add _ NaN = NaN"
| "js_add (Fin a) (Fin b) = Fin (a + b)"
| "js_add PInf NInf = NaN"
| "js_add NInf PInf = NaN"
| "js_add PInf _ = PInf"
| "js_add _ PInf = PInf"
| "js_add NInf _ = NInf"
| "js_add _ NInf = NInf"

definition js_sub :: "jsnum \<Rightarrow> jsnum \<Rightarrow> jsnum" where
  "js_sub a b = js_add a (js_neg b)"

text \<open>The sign of an infinite product or quotient, from the sign of the finite operand.\<close>

definition signed_inf :: "bool \<Rightarrow> jsnum" where
  "signed_inf positive = (if positive then PInf else NInf)"

fun js_mul :: "jsnum \<Rightarrow> jsnum \<Rightarrow> jsnum" where
  "js_mul NaN _ = NaN"
| "js_mul _ NaN = NaN"
| "js_mul (Fin a) (Fin b) = Fin (a * b)"
| "js_mul (Fin a) PInf = (if a = 0 then NaN else signed_inf (0 < a))"
| "js_mul (Fin a) NInf = (if a = 0 then NaN else signed_inf (a < 0))"
| "js_mul PInf (Fin b) = (if b = 0 then NaN else signed_inf (0 < b))"
| "js_mul NInf (Fin b) = (if b = 0 then NaN else signed_inf (b < 0))"
| "js_mul PInf PInf = PInf"
| "js_mul NInf NInf = PInf"
| "js_mul PInf NInf = NInf"
| "js_mul NInf PInf = NInf"

fun js_div :: "jsnum \<Rightarrow> jsnum \<Rightarrow> jsnum" where
  "js_div NaN _ = NaN"
| "js_div _ NaN = NaN"
| "js_div (Fin a) (Fin b) =
     (if b = 0 then (if a = 0 then NaN else signed_inf (0 < a)) else Fin (a / b))"
| "js_div (Fin a) PInf = Fin 0"
| "js_div (Fin a) NInf = Fin 0"
| "js_div PInf (Fin b) = signed_inf (0 \<le> b)"
| "js_div NInf (Fin b) = signed_inf (b < 0)"
| "js_div PInf PInf = NaN"
| "js_div PInf NInf = NaN"
| "js_div NInf PInf = NaN"
| "js_div NInf NInf = NaN"

text \<open>\<^verbatim>\<open>a > b\<close> and \<^verbatim>\<open>a === b\<close> on numbers: both are false as soon as one side is NaN.\<close>

fun js_gt :: "jsnum \<Rightarrow> jsnum \<Rightarrow> bool" where
  "js_gt NaN _ = False"
| "js_gt _ NaN = False"
| "js_gt (Fin a) (Fin b) = (b < a)"
| "js_gt PInf PInf = False"
| "js_gt PInf _ = True"
| "js_gt _ PInf = False"
| "js_gt NInf _ = False"
| "js_gt _ NInf = True"

fun js_strict_eq :: "jsnum \<Rightarrow> jsnum \<Rightarrow> bool" where
  "js_strict_eq NaN _ = False"
| "js_strict_eq _ NaN = False"
| "js_strict_eq a b = (a = b)"

text \<open>\<^verbatim>\<open>a >= b\<close>, used only to state properties of scores.\<close>

definition js_ge :: "jsnum \<Rightarrow> jsnum \<Rightarrow> bool" where
  "js_ge a b = (js_gt a b \<or> js_strict_eq a b)"

text \<open>\<^verbatim>\<open>Math.max(a, b)\<close>: NaN as soon as one argument is NaN.\<close>

fun js_max :: "jsnum \<Rightarrow> jsnum \<Rightarrow> jsnum" where
  "js_max NaN _ = NaN"
| "js_max _ NaN = NaN"
| "js_max a b = (if js_gt b a then b else a)"

section \<open>Data model\<close>

text \<open>
  A row of the \<^verbatim>\<open>items\<close> table (interface \<^verbatim>\<open>Item\<close>), with the columns that
  \<^verbatim>\<open>aggregateMaterials\<close> reads. The field \<^verbatim>\<open>id\<close> is \<open>id_item\<close> and \<^verbatim>\<open>value\<close> is
  \<open>value_item\<close>; \<^verbatim>\<open>stack_size\<close> is nullable. The integer columns hold the stored
  integers; the code sees their doubles.
\<close>

record Item =
  id_item :: string
  name :: string
  rarity :: string
  value_item :: int
  weight_kg :: real
  stack_size :: "int option"

text \<open>A row of \<^verbatim>\<open>crafting_recipes\<close> (interface \<^verbatim>\<open>CraftingRecipe\<close>).\<close>

record CraftingRecipe =
  item_id :: string
  ingredient_id :: string
  quantity :: int

text \<open>
  A row of \<^verbatim>\<open>salvaging_outputs\<close> or of \<^verbatim>\<open>recycling_outputs\<close> (interfaces
  \<^verbatim>\<open>SalvagingOutput\<close> and \<^verbatim>\<open>RecyclingOutput\<close>, which have the same three fields
  \<^verbatim>\<open>item_id\<close>, \<^verbatim>\<open>output_id\<close>, \<^verbatim>\<open>quantity\<close>).
\<close>

record OutputRow =
  source_id :: string
  output_id :: string
  yield_quantity :: int

text \<open>The store: the four tables, each a list of rows in the order SQLite returns them.\<close>

record Store =
  items :: "Item list"
  crafting_recipes :: "CraftingRecipe list"
  salvaging_outputs :: "OutputRow list"
  recycling_outputs :: "OutputRow list"

text \<open>
  \<^verbatim>\<open>MaterialFilterOptions\<close>. The two optional sets are \<open>None\<close> when the property is
  absent; a list stands for a set that is iterated.
\<close>

record MaterialFilterOptions =
  hideScrappyCollected :: bool
  rarityFilters :: "string set"
  hiddenSourceItems :: "string list option"
  pausedBookmarks :: "string set option"

datatype ScoringMethod = max_yield | weight_conscious

record MaterialRequirement =
  item :: Item
  totalQuantity :: int
  requiredBy :: "string list"

record SalvagingSource =
  source_item :: Item
  salvageYields :: "(string \<times> int) list"
  recycleYields :: "(string \<times> int) list"
  salvageScore :: jsnum
  recycleScore :: jsnum
  baseName :: string

record AggregatedMaterialsData =
  materials :: "MaterialRequirement list"
  salvageSources :: "SalvagingSource list"
  recycleSources :: "SalvagingSource list"
  materialToSources :: "(string \<times> string list) list"
  sourceToMaterials :: "(string \<times> string list) list"

text \<open>
  A JavaScript \<^verbatim>\<open>Map\<close> is an association list in insertion order: \<open>AList.update\<close>
  replaces the value of a key in place and appends a new key at the end, as
  \<^verbatim>\<open>Map.prototype.set\<close> does. A \<^verbatim>\<open>Set\<close> is a list in insertion order.
\<close>

definition set_add :: "'a \<Rightarrow> 'a list \<Rightarrow> 'a list" where
  "set_add x s = (if x \<in> set s then s else s @ [x])"

definition new_Set :: "'a list \<Rightarrow> 'a list" where
  "new_Set xs = fold set_add xs []"

definition new_Map :: "('k \<times> 'v) list \<Rightarrow> ('k \<times> 'v) list" where
  "new_Map entries = fold (\<lambda>(k, v). AList.update k v) entries []"

section \<open>The store's queries\<close>

text \<open>\<^verbatim>\<open>SELECT * FROM crafting_recipes WHERE item_id = ?\<close>\<close>

definition recipesFor :: "Store \<Rightarrow> string \<Rightarrow> CraftingRecipe list" where
  "recipesFor db itemId = filter (\<lambda>r. item_id r = itemId) (crafting_recipes db)"

text \<open>\<^verbatim>\<open>queryOne('SELECT * FROM items WHERE id = ?')\<close>: the first row, or undefined.\<close>

definition itemById :: "Store \<Rightarrow> string \<Rightarrow> Item option" where
  "itemById db i = find (\<lambda>it. id_item it = i) (items db)"

text \<open>
  \<^verbatim>\<open>SELECT so.item_id, so.output_id, so.quantity, i.* FROM salvaging_outputs so
  JOIN items i ON so.item_id = i.id WHERE so.output_id = ? AND so.item_id NOT IN (...)\<close>,
  on either output table: every output row for the material whose source is not
  excluded, joined with every item row of that id.
\<close>

definition outputsFor :: "OutputRow list \<Rightarrow> Item list \<Rightarrow> string \<Rightarrow> string list
    \<Rightarrow> (OutputRow \<times> Item) list" where
  "outputsFor table its materialId excludedIds =
     concat (map (\<lambda>so. map (\<lambda>i. (so, i)) (filter (\<lambda>i. id_item i = source_id so) its))
       (filter (\<lambda>so. output_id so = materialId \<and> source_id so \<notin> set excludedIds) table))"

section \<open>Helpers of the aggregator\<close>

definition SCRAPPY_MATERIALS :: "string set" where
  "SCRAPPY_MATERIALS = {''metal_parts'', ''fabric'', ''plastic_parts'', ''chemicals'',
     ''rubber_parts'', ''assorted_seeds''}"

text \<open>
  The two rarity tables are plain objects, so a lookup also finds the members that every
  object inherits from \<^verbatim>\<open>Object.prototype\<close>.
\<close>

definition OBJECT_PROTOTYPE_KEYS :: "string set" where
  "OBJECT_PROTOTYPE_KEYS =
     {''constructor'', ''__proto__'', ''hasOwnProperty'', ''isPrototypeOf'',
      ''propertyIsEnumerable'', ''toLocaleString'', ''toString'', ''valueOf'',
      ''__defineGetter__'', ''__defineSetter__'', ''__lookupGetter__'',
      ''__lookupSetter__''}"

text \<open>
  \<^verbatim>\<open>RARITY_SALVAGE_PENALTY[rarity] || 1.0\<close> and \<^verbatim>\<open>RARITY_RECYCLE_BONUS[rarity] || 1.0\<close>,
  as the factor of a product: the table's value for its five keys; for a rarity that
  names an inherited member the lookup gives a function or an object, which is truthy
  and is NaN as a number; 1 for any other rarity.
\<close>

definition RARITY_SALVAGE_PENALTY :: "string \<Rightarrow> jsnum" where
  "RARITY_SALVAGE_PENALTY r =
     (if r = ''Common'' then Fin 1 else if r = ''Uncommon'' then Fin (9 / 10)
      else if r = ''Rare'' then Fin (8 / 10) else if r = ''Epic'' then Fin (7 / 10)
      else if r = ''Legendary'' then Fin (6 / 10)
      else if r \<in> OBJECT_PROTOTYPE_KEYS then NaN else Fin 1)"

definition RARITY_RECYCLE_BONUS :: "string \<Rightarrow> jsnum" where
  "RARITY_RECYCLE_BONUS r =
     (if r = ''Common'' then Fin 1 else if r = ''Uncommon'' then Fin (11 / 10)
      else if r = ''Rare'' then Fin (115 / 100) else if r = ''Epic'' then Fin (12 / 10)
      else if r = ''Legendary'' then Fin (125 / 100)
      else if r \<in> OBJECT_PROTOTYPE_KEYS then NaN else Fin 1)"

definition IMMEDIACY_BONUS :: real where "IMMEDIACY_BONUS = 12 / 10"
definition RECYCLING_THRESHOLD :: real where "RECYCLING_THRESHOLD = 2"
definition COMPLEXITY_PENALTY :: real where "COMPLEXITY_PENALTY = 85 / 100"
definition SLOT_EFFICIENCY_WEIGHT :: real where "SLOT_EFFICIENCY_WEIGHT = 3 / 10"
definition DEFAULT_STACK_SIZE :: int where "DEFAULT_STACK_SIZE = 1"

text \<open>\<^verbatim>\<open>Math.pow(1.15, numMaterials - 1)\<close>; the exponent is \<open>-1\<close> for an empty map.\<close>

definition multiMaterialBonus :: "nat \<Rightarrow> real" where
  "multiMaterialBonus numMaterials =
     (if numMaterials = 0 then 1 / (115 / 100) else (115 / 100) ^ (numMaterials - 1))"

definition carryWeightPenalty :: "real \<Rightarrow> real" where
  "carryWeightPenalty weight = max (3 / 10) (1 - weight / 10)"

definition valueBonus :: "int \<Rightarrow> real" where
  "valueBonus v = min (13 / 10) (1 + (real_of_int (to_double v) / 5000) * (1 / 10))"

text \<open>
  \<^verbatim>\<open>name.replace(/\s+(I|II|III|IV)$/, '')\<close>. The pattern matches when the text after the
  last white-space character is one of the four numerals; the match starts at the
  beginning of the white-space run before it. Characters are 8-bit; the white space of
  \<^verbatim>\<open>\s\<close> in that range is tab, line feed, vertical tab, form feed, carriage return,
  space and no-break space.
\<close>

definition is_space :: "char \<Rightarrow> bool" where
  "is_space c = (of_char c \<in> {9, 10, 11, 12, 13, 32, 160 :: nat})"

definition getBaseName :: "string \<Rightarrow> string" where
  "getBaseName nm =
     (let r = rev nm;
          tier = rev (takeWhile (\<lambda>c. \<not> is_space c) r);
          rest = dropWhile (\<lambda>c. \<not> is_space c) r
      in if tier \<in> {''I'', ''II'', ''III'', ''IV''} \<and> rest \<noteq> []
         then rev (dropWhile is_space rest) else nm)"

definition shouldIncludeMaterial :: "Item \<Rightarrow> MaterialFilterOptions \<Rightarrow> bool" where
  "shouldIncludeMaterial material filterOptions =
     (if rarity material \<notin> rarityFilters filterOptions then False
      else if hideScrappyCollected filterOptions \<and> id_item material \<in> SCRAPPY_MATERIALS
        then False
      else True)"

section \<open>Step 1: the material demand\<close>

text \<open>The three maps that the first loop of \<^verbatim>\<open>aggregateMaterials\<close> fills.\<close>

record Demand =
  materialQuantityMap :: "(string \<times> int) list"
  materialRequiredByMap :: "(string \<times> string list) list"
  materialItemsMap :: "(string \<times> Item) list"

text \<open>
  The body of \<^verbatim>\<open>for (const recipe of recipes)\<close>: fetch and cache the ingredient's item,
  skip the edge when there is none or when it is filtered out, otherwise add the
  quantity and record the requiring item.
\<close>

definition addRecipe :: "MaterialFilterOptions \<Rightarrow> Store \<Rightarrow> string \<Rightarrow> CraftingRecipe
    \<Rightarrow> Demand \<Rightarrow> Demand" where
  "addRecipe filterOptions db itemId recipe st =
     (let ing = ingredient_id recipe;
          itemsMap =
            (if map_of (materialItemsMap st) ing = None
             then (case itemById db ing of
                     Some materialItem \<Rightarrow> AList.update ing materialItem (materialItemsMap st)
                   | None \<Rightarrow> materialItemsMap st)
             else materialItemsMap st);
          st1 = st\<lparr>materialItemsMap := itemsMap\<rparr>
      in case map_of itemsMap ing of
           None \<Rightarrow> st1
         | Some materialItem \<Rightarrow>
             if \<not> shouldIncludeMaterial materialItem filterOptions then st1
             else
               let currentQuantity =
                     (case map_of (materialQuantityMap st1) ing of Some c \<Rightarrow> c | None \<Rightarrow> 0);
                   requirers =
                     (case map_of (materialRequiredByMap st1) ing of Some s \<Rightarrow> s | None \<Rightarrow> [])
               in st1\<lparr>materialQuantityMap :=
                        AList.update ing (js_plus currentQuantity (to_double (quantity recipe)))
                          (materialQuantityMap st1),
                      materialRequiredByMap :=
                        AList.update ing (set_add itemId requirers)
                          (materialRequiredByMap st1)\<rparr>)"

text \<open>The body of \<^verbatim>\<open>for (const itemId of bookmarkedIds)\<close>: a paused item is skipped.\<close>

definition addBookmark :: "MaterialFilterOptions \<Rightarrow> Store \<Rightarrow> string \<Rightarrow> Demand \<Rightarrow> Demand" where
  "addBookmark filterOptions db itemId st =
     (if (case pausedBookmarks filterOptions of Some p \<Rightarrow> itemId \<in> p | None \<Rightarrow> False)
      then st
      else fold (addRecipe filterOptions db itemId) (recipesFor db itemId) st)"

definition resolveDemand :: "MaterialFilterOptions \<Rightarrow> Store \<Rightarrow> string list \<Rightarrow> Demand" where
  "resolveDemand filterOptions db bookmarkedIds =
     fold (addBookmark filterOptions db) bookmarkedIds
       \<lparr>materialQuantityMap = [], materialRequiredByMap = [], materialItemsMap = []\<rparr>"

section \<open>Step 2: the material requirements\<close>

definition buildMaterials :: "Demand \<Rightarrow> MaterialRequirement list" where
  "buildMaterials st =
     concat (map (\<lambda>(materialId, total).
         case map_of (materialItemsMap st) materialId of
           Some it \<Rightarrow>
             [\<lparr>item = it, totalQuantity = total,
               requiredBy = (case map_of (materialRequiredByMap st) materialId of
                               Some s \<Rightarrow> s | None \<Rightarrow> [])\<rparr>]
         | None \<Rightarrow> [])
       (materialQuantityMap st))"

text \<open>
  \<^verbatim>\<open>Array.prototype.sort(compare)\<close>, which is stable: an element moves behind another
  one only when \<^verbatim>\<open>compare\<close> is positive on them (NaN counts as 0). The model is the
  stable insertion sort; for a consistent comparator every stable sort returns the same
  list.
\<close>

fun sort_insert :: "('a \<Rightarrow> 'a \<Rightarrow> jsnum) \<Rightarrow> 'a \<Rightarrow> 'a list \<Rightarrow> 'a list" where
  "sort_insert compare x [] = [x]"
| "sort_insert compare x (y # ys) =
     (if js_gt (compare x y) (Fin 0) then y # sort_insert compare x ys else x # y # ys)"

definition js_sort :: "('a \<Rightarrow> 'a \<Rightarrow> jsnum) \<Rightarrow> 'a list \<Rightarrow> 'a list" where
  "js_sort compare xs = foldr (sort_insert compare) xs []"

section \<open>Step 3: source discovery and tier grouping\<close>

text \<open>A value of the \<^verbatim>\<open>groupedSources\<close> map.\<close>

record SourceGroup =
  group_items :: "Item list"
  salvageYieldsMap :: "(string \<times> int) list"
  recycleYieldsMap :: "(string \<times> int) list"
  group_baseName :: string

definition groupFor :: "(string \<times> SourceGroup) list \<Rightarrow> string \<Rightarrow> SourceGroup" where
  "groupFor groupedSources bn =
     (case map_of groupedSources bn of
        Some g \<Rightarrow> g
      | None \<Rightarrow> \<lparr>group_items = [], salvageYieldsMap = [], recycleYieldsMap = [],
                 group_baseName = bn\<rparr>)"

definition addItem :: "Item \<Rightarrow> Item list \<Rightarrow> Item list" where
  "addItem src its = (if id_item src \<in> set (map id_item its) then its else its @ [src])"

text \<open>The body of \<^verbatim>\<open>for (const source of sources)\<close> of the salvaging query.\<close>

definition addSalvageSource :: "string \<Rightarrow> OutputRow \<times> Item \<Rightarrow> (string \<times> SourceGroup) list
    \<Rightarrow> (string \<times> SourceGroup) list" where
  "addSalvageSource materialId source groupedSources =
     (let bn = getBaseName (name (snd source));
          g = groupFor groupedSources bn;
          currentYield = (case map_of (salvageYieldsMap g) materialId of
                            Some y \<Rightarrow> y | None \<Rightarrow> 0)
      in AList.update bn
           (g\<lparr>group_items := addItem (snd source) (group_items g),
              salvageYieldsMap :=
                AList.update materialId
                  (js_plus currentYield (to_double (yield_quantity (fst source))))
                  (salvageYieldsMap g)\<rparr>)
           groupedSources)"

text \<open>The same for the recycling query.\<close>

definition addRecycleSource :: "string \<Rightarrow> OutputRow \<times> Item \<Rightarrow> (string \<times> SourceGroup) list
    \<Rightarrow> (string \<times> SourceGroup) list" where
  "addRecycleSource materialId source groupedSources =
     (let bn = getBaseName (name (snd source));
          g = groupFor groupedSources bn;
          currentYield = (case map_of (recycleYieldsMap g) materialId of
                            Some y \<Rightarrow> y | None \<Rightarrow> 0)
      in AList.update bn
           (g\<lparr>group_items := addItem (snd source) (group_items g),
              recycleYieldsMap :=
                AList.update materialId
                  (js_plus currentYield (to_double (yield_quantity (fst source))))
                  (recycleYieldsMap g)\<rparr>)
           groupedSources)"

definition discoverSources :: "Store \<Rightarrow> string list \<Rightarrow> string list
    \<Rightarrow> (string \<times> SourceGroup) list" where
  "discoverSources db materialIds excludedIds =
     fold (\<lambda>materialId.
         fold (addRecycleSource materialId)
           (outputsFor (recycling_outputs db) (items db) materialId excludedIds))
       materialIds
       (fold (\<lambda>materialId.
           fold (addSalvageSource materialId)
             (outputsFor (salvaging_outputs db) (items db) materialId excludedIds))
         materialIds [])"

section \<open>Step 4: the two scores of a group\<close>

text \<open>
  \<^verbatim>\<open>Math.round(totalYield / group.items.length)\<close>: \<^verbatim>\<open>Math.round\<close> is the floor of its
  argument plus one half; the quotient is the exact one.
\<close>

definition avgYield :: "int \<Rightarrow> nat \<Rightarrow> int" where
  "avgYield totalYield n = \<lfloor>real_of_int totalYield / real n + 1 / 2\<rfloor>"

text \<open>
  The loops that fill \<^verbatim>\<open>avgSalvageYields\<close> and \<^verbatim>\<open>avgRecycleYields\<close>: only the
  materials that are keys of \<^verbatim>\<open>materialQuantityMap\<close> are kept.
\<close>

definition avgYields :: "(string \<times> int) list \<Rightarrow> nat \<Rightarrow> (string \<times> int) list
    \<Rightarrow> (string \<times> int) list" where
  "avgYields quantityMap n yieldsMap =
     fold (\<lambda>(materialId, totalYield) avg.
         if map_of quantityMap materialId \<noteq> None
         then AList.update materialId (avgYield totalYield n) avg else avg)
       yieldsMap []"

text \<open>\<^verbatim>\<open>salvageBaseScore\<close> and \<^verbatim>\<open>recycleBaseScore\<close>.\<close>

definition baseScore :: "(string \<times> int) list \<Rightarrow> int \<Rightarrow> (string \<times> int) list \<Rightarrow> real" where
  "baseScore quantityMap totalDemand yields =
     (if 0 < totalDemand \<and> 0 < js_sum (map snd yields)
      then sum_list (map (\<lambda>(materialId, yieldAmount).
             real_of_int yieldAmount *
               (real_of_int (case map_of quantityMap materialId of Some n \<Rightarrow> n | None \<Rightarrow> 0)
                  / real_of_int totalDemand))
             yields)
      else 0)"

definition totalYieldWeight :: "Store \<Rightarrow> (string \<times> int) list \<Rightarrow> real" where
  "totalYieldWeight db yields =
     sum_list (map (\<lambda>(materialId, yieldAmount).
         case itemById db materialId of
           Some materialItem \<Rightarrow> real_of_int yieldAmount * weight_kg materialItem
         | None \<Rightarrow> 0)
       yields)"

definition effectiveWeight :: "Store \<Rightarrow> Item \<Rightarrow> (string \<times> int) list \<Rightarrow> real" where
  "effectiveWeight db representativeItem yields =
     (if 0 < totalYieldWeight db yields then totalYieldWeight db yields
      else weight_kg representativeItem)"

definition stackSizeOf :: "Item option \<Rightarrow> int" where
  "stackSizeOf it =
     (case it of
        Some i \<Rightarrow> (case stack_size i of Some s \<Rightarrow> to_double s | None \<Rightarrow> DEFAULT_STACK_SIZE)
      | None \<Rightarrow> DEFAULT_STACK_SIZE)"

definition calculateSlotEfficiency :: "Item \<Rightarrow> (string \<times> int) list \<Rightarrow> Store \<Rightarrow> jsnum" where
  "calculateSlotEfficiency it outputYields db =
     (let itemStackSize = stackSizeOf (Some it) in
      if length outputYields = 0 then Fin 1
      else
        let totalQty = js_sum (map snd outputYields);
            weightedStackSum =
              js_sum (map (\<lambda>(materialId, qty). js_times (stackSizeOf (itemById db materialId)) qty)
                outputYields);
            avgOutputStack =
              js_div (Fin (real_of_int weightedStackSum)) (Fin (real_of_int totalQty))
        in js_div avgOutputStack (Fin (real_of_int itemStackSize)))"

text \<open>\<^verbatim>\<open>Math.max(1.0, 1 + (slotEfficiency - 1) * SLOT_EFFICIENCY_WEIGHT)\<close>\<close>

definition slotBonus :: "jsnum \<Rightarrow> jsnum" where
  "slotBonus slotEfficiency =
     js_max (Fin 1)
       (js_add (Fin 1) (js_mul (js_sub slotEfficiency (Fin 1)) (Fin SLOT_EFFICIENCY_WEIGHT)))"

definition salvageScoreOf :: "ScoringMethod \<Rightarrow> Store \<Rightarrow> (string \<times> int) list \<Rightarrow> int \<Rightarrow> Item
    \<Rightarrow> (string \<times> int) list \<Rightarrow> jsnum" where
  "salvageScoreOf scoringMethod db quantityMap totalDemand representativeItem avgSalvageYields =
     (let salvageBaseScore = baseScore quantityMap totalDemand avgSalvageYields;
          w = effectiveWeight db representativeItem avgSalvageYields;
          weightFactor = (if scoringMethod = weight_conscious then w ^ 2 else w);
          score =
            js_mul
              (js_mul (js_div (Fin salvageBaseScore) (Fin weightFactor))
                 (RARITY_SALVAGE_PENALTY (rarity representativeItem)))
              (Fin IMMEDIACY_BONUS)
      in js_mul score
           (slotBonus (calculateSlotEfficiency representativeItem avgSalvageYields db)))"

definition recycleScoreOf :: "ScoringMethod \<Rightarrow> Store \<Rightarrow> (string \<times> int) list \<Rightarrow> int \<Rightarrow> Item
    \<Rightarrow> (string \<times> int) list \<Rightarrow> jsnum" where
  "recycleScoreOf scoringMethod db quantityMap totalDemand representativeItem avgRecycleYields =
     (let recycleBaseScore = baseScore quantityMap totalDemand avgRecycleYields;
          w = weight_kg representativeItem;
          score =
            (if scoringMethod = max_yield
             then js_mul
                    (js_mul
                       (js_mul (js_div (Fin recycleBaseScore) (Fin w))
                          (RARITY_RECYCLE_BONUS (rarity representativeItem)))
                       (Fin (multiMaterialBonus (length avgRecycleYields))))
                    (Fin COMPLEXITY_PENALTY)
             else js_mul
                    (js_mul
                       (js_mul
                          (js_mul
                             (js_mul (js_div (Fin recycleBaseScore) (Fin (w ^ 2)))
                                (RARITY_RECYCLE_BONUS (rarity representativeItem)))
                             (Fin (multiMaterialBonus (length avgRecycleYields))))
                          (Fin (carryWeightPenalty w)))
                       (Fin (valueBonus (value_item representativeItem))))
                    (Fin COMPLEXITY_PENALTY))
      in js_mul score
           (slotBonus (calculateSlotEfficiency representativeItem avgRecycleYields db)))"

text \<open>
  Reading a property of \<^verbatim>\<open>group.items[0]\<close> throws a TypeError when the group has no
  item.
\<close>

datatype error = TypeError

definition scoreGroup :: "ScoringMethod \<Rightarrow> Store \<Rightarrow> (string \<times> int) list \<Rightarrow> int \<Rightarrow> SourceGroup
    \<Rightarrow> error + SalvagingSource" where
  "scoreGroup scoringMethod db quantityMap totalDemand g =
     (case group_items g of
        [] \<Rightarrow> Inl TypeError
      | representativeItem # _ \<Rightarrow>
          let avgSalvageYields =
                avgYields quantityMap (length (group_items g)) (salvageYieldsMap g);
              avgRecycleYields =
                avgYields quantityMap (length (group_items g)) (recycleYieldsMap g)
          in Inr \<lparr>source_item = representativeItem,
                  salvageYields = avgSalvageYields,
                  recycleYields = avgRecycleYields,
                  salvageScore =
                    salvageScoreOf scoringMethod db quantityMap totalDemand representativeItem
                      avgSalvageYields,
                  recycleScore =
                    recycleScoreOf scoringMethod db quantityMap totalDemand representativeItem
                      avgRecycleYields,
                  baseName = group_baseName g\<rparr>)"

text \<open>
  The loop \<^verbatim>\<open>for (const group of groupedSources.values())\<close>: a group with two empty
  yield maps is skipped, the first exception ends the loop.
\<close>

fun scoreGroups :: "ScoringMethod \<Rightarrow> Store \<Rightarrow> (string \<times> int) list \<Rightarrow> int \<Rightarrow> SourceGroup list
    \<Rightarrow> error + SalvagingSource list" where
  "scoreGroups scoringMethod db quantityMap totalDemand [] = Inr []"
| "scoreGroups scoringMethod db quantityMap totalDemand (g # gs) =
     (if length (salvageYieldsMap g) = 0 \<and> length (recycleYieldsMap g) = 0
      then scoreGroups scoringMethod db quantityMap totalDemand gs
      else case scoreGroup scoringMethod db quantityMap totalDemand g of
             Inl e \<Rightarrow> Inl e
           | Inr source \<Rightarrow>
               (case scoreGroups scoringMethod db quantityMap totalDemand gs of
                  Inl e \<Rightarrow> Inl e
                | Inr sources \<Rightarrow> Inr (source # sources)))"

section \<open>Step 5: salvage or recycle\<close>

text \<open>
  The body of \<^verbatim>\<open>for (const source of allSources)\<close>; the state is the pair of
  \<^verbatim>\<open>salvageSources\<close> and \<^verbatim>\<open>recycleSources\<close>.
\<close>

definition splitSource :: "SalvagingSource \<Rightarrow> SalvagingSource list \<times> SalvagingSource list
    \<Rightarrow> SalvagingSource list \<times> SalvagingSource list" where
  "splitSource source buckets =
     (if js_strict_eq (salvageScore source) (Fin 0) \<and> js_strict_eq (recycleScore source) (Fin 0)
      then buckets
      else if js_strict_eq (salvageScore source) (Fin 0) \<and> js_gt (recycleScore source) (Fin 0)
      then (fst buckets, snd buckets @ [source])
      else if js_strict_eq (recycleScore source) (Fin 0) \<and> js_gt (salvageScore source) (Fin 0)
      then (fst buckets @ [source], snd buckets)
      else if js_gt (js_div (recycleScore source) (salvageScore source)) (Fin RECYCLING_THRESHOLD)
      then (fst buckets, snd buckets @ [source])
      else (fst buckets @ [source], snd buckets))"

section \<open>Step 6: the relationship maps\<close>

text \<open>
  The body of \<^verbatim>\<open>for (const [materialId] of allYields)\<close>; the state is
  \<^verbatim>\<open>materialToSources\<close> and \<^verbatim>\<open>materialsProvided\<close>. Creating the empty list of a new
  material and pushing the source id when the list does not include it is one
  \<open>AList.update\<close> with \<open>set_add\<close>.
\<close>

definition indexMaterial :: "string \<Rightarrow> string
    \<Rightarrow> (string \<times> string list) list \<times> string list
    \<Rightarrow> (string \<times> string list) list \<times> string list" where
  "indexMaterial sourceId materialId acc =
     (let sourcesOf = (case map_of (fst acc) materialId of Some l \<Rightarrow> l | None \<Rightarrow> [])
      in (AList.update materialId (set_add sourceId sourcesOf) (fst acc),
          set_add materialId (snd acc)))"

text \<open>
  The body of \<^verbatim>\<open>for (const source of [...salvageSources, ...recycleSources])\<close>; the
  state is \<^verbatim>\<open>materialToSources\<close> and \<^verbatim>\<open>sourceToMaterials\<close>.
\<close>

definition indexSource :: "SalvagingSource
    \<Rightarrow> (string \<times> string list) list \<times> (string \<times> string list) list
    \<Rightarrow> (string \<times> string list) list \<times> (string \<times> string list) list" where
  "indexSource source maps =
     (let sourceId = id_item (source_item source);
          allYields = new_Map (salvageYields source @ recycleYields source);
          r = fold (indexMaterial sourceId) (map fst allYields) (fst maps, [])
      in (fst r, AList.update sourceId (snd r) (snd maps)))"

section \<open>aggregateMaterials\<close>

text \<open>
  The exported function, with its four arguments given (the caller passes all of them).
  The bookmark \<^verbatim>\<open>Set\<close> is the list of its elements in insertion order. The items of the
  result are \<open>Item\<close> rows: the three extra columns that a joined row carries along are
  left out.
\<close>

definition aggregateMaterials :: "string list \<Rightarrow> Store \<Rightarrow> ScoringMethod \<Rightarrow> MaterialFilterOptions
    \<Rightarrow> error + AggregatedMaterialsData" where
  "aggregateMaterials bookmarkedIds db scoringMethod filterOptions =
     (let st = resolveDemand filterOptions db bookmarkedIds;
          quantityMap = materialQuantityMap st;
          mats = js_sort (\<lambda>a b. Fin (real_of_int (totalQuantity b - totalQuantity a)))
                   (buildMaterials st);
          materialIds = map fst quantityMap;
          excludedIds =
            new_Set (bookmarkedIds @ materialIds @
              (case hiddenSourceItems filterOptions of Some h \<Rightarrow> h | None \<Rightarrow> []));
          groupedSources = discoverSources db materialIds excludedIds;
          totalDemand = js_sum (map snd quantityMap)
      in case scoreGroups scoringMethod db quantityMap totalDemand (map snd groupedSources) of
           Inl e \<Rightarrow> Inl e
         | Inr allSources \<Rightarrow>
             let buckets = fold splitSource allSources ([], []);
                 salvage =
                   js_sort (\<lambda>a b. js_sub (salvageScore b) (salvageScore a)) (fst buckets);
                 recycle =
                   js_sort (\<lambda>a b. js_sub (recycleScore b) (recycleScore a)) (snd buckets);
                 maps = fold indexSource (salvage @ recycle) ([], [])
             in Inr \<lparr>materials = mats,
                     salvageSources = salvage,
                     recycleSources = recycle,
                     materialToSources = fst maps,
                     sourceToMaterials = snd maps\<rparr>)"

section \<open>Definitions for the statements, and example stores\<close>

text \<open>
  The material filter in the words of the specification: a material is rejected if its
  rarity is not in rarityFilters, or if hideScrappyCollected is true and its id is one of
  the six auto-collected material ids.
\<close>

definition acceptedByFilters :: "MaterialFilterOptions \<Rightarrow> Item \<Rightarrow> bool" where
  "acceptedByFilters filterOptions material =
     (rarity material \<in> rarityFilters filterOptions \<and>
      \<not> (hideScrappyCollected filterOptions \<and>
         id_item material \<in> {''metal_parts'', ''fabric'', ''plastic_parts'', ''chemicals'',
           ''rubber_parts'', ''assorted_seeds''}))"

text \<open>
  The recipe edges that count: the edges of a bookmarked item that is not paused, whose
  ingredient has a row in the items table that the material filter accepts.
\<close>

definition countedEdge :: "string list \<Rightarrow> Store \<Rightarrow> MaterialFilterOptions \<Rightarrow> CraftingRecipe \<Rightarrow> bool"
  where
  "countedEdge bookmarkedIds db filterOptions e =
     (item_id e \<in> set bookmarkedIds \<and>
      (case pausedBookmarks filterOptions of Some p \<Rightarrow> item_id e \<notin> p | None \<Rightarrow> True) \<and>
      (case find (\<lambda>m. id_item m = ingredient_id e) (items db) of
         Some material \<Rightarrow> acceptedByFilters filterOptions material
       | None \<Rightarrow> False))"

text \<open>
  The test that \<open>addRecipe\<close> makes on an edge: the item row of its ingredient exists
  and \<open>shouldIncludeMaterial\<close> accepts it.
\<close>

definition ingredientPasses :: "MaterialFilterOptions \<Rightarrow> Store \<Rightarrow> CraftingRecipe \<Rightarrow> bool" where
  "ingredientPasses filterOptions db recipe =
     (case itemById db (ingredient_id recipe) of
        Some materialItem \<Rightarrow> shouldIncludeMaterial materialItem filterOptions
      | None \<Rightarrow> False)"

text \<open>
  \<^verbatim>\<open>filterOptions.pausedBookmarks?.has(itemId)\<close>
\<close>

definition isPaused :: "MaterialFilterOptions \<Rightarrow> string \<Rightarrow> bool" where
  "isPaused filterOptions itemId =
     (case pausedBookmarks filterOptions of Some p \<Rightarrow> itemId \<in> p | None \<Rightarrow> False)"

text \<open>
  What the first loop keeps true: a cached material item is the store's row for its
  id, and every material with a quantity has a cached item.
\<close>

definition demand_inv :: "Store \<Rightarrow> Demand \<Rightarrow> bool" where
  "demand_inv db st =
     ((\<forall>k it. map_of (materialItemsMap st) k = Some it \<longrightarrow> itemById db k = Some it) \<and>
      (\<forall>k. map_of (materialQuantityMap st) k \<noteq> None \<longrightarrow> map_of (materialItemsMap st) k \<noteq> None))"

text \<open>
  What the two query loops keep true of \<^verbatim>\<open>groupedSources\<close>: the keys are distinct,
  no group is without an item, and every item of a group satisfies \<open>P\<close> with the
  group's key.
\<close>

definition groups_inv :: "(string \<Rightarrow> Item \<Rightarrow> bool) \<Rightarrow> (string \<times> SourceGroup) list \<Rightarrow> bool" where
  "groups_inv P groupedSources =
     (distinct (map fst groupedSources) \<and>
      (\<forall>(k, g)\<in>set groupedSources.
         group_items g \<noteq> [] \<and> (\<forall>it\<in>set (group_items g). P k it)))"

text \<open>
  An item of a group is a row of the items table, has the group's key as its base
  name, and its id is not excluded.
\<close>

definition row_ok :: "Store \<Rightarrow> string list \<Rightarrow> string \<Rightarrow> Item \<Rightarrow> bool" where
  "row_ok db excludedIds k it =
     (it \<in> set (items db) \<and> getBaseName (name it) = k \<and> id_item it \<notin> set excludedIds)"

text \<open>
  The test \<^verbatim>\<open>salvageYieldsMap.size === 0 && recycleYieldsMap.size === 0\<close> of step 4.
\<close>

definition skipped :: "SourceGroup \<Rightarrow> bool" where
  "skipped g = (length (salvageYieldsMap g) = 0 \<and> length (recycleYieldsMap g) = 0)"

text \<open>
  The local values \<^verbatim>\<open>excludedIds\<close>, \<^verbatim>\<open>groupedSources\<close> and \<^verbatim>\<open>allSources\<close> of
  \<open>aggregateMaterials\<close>, and the record it returns from them, as functions of the
  arguments.
\<close>

definition excludedIdsOf :: "string list \<Rightarrow> Store \<Rightarrow> MaterialFilterOptions \<Rightarrow> string list" where
  "excludedIdsOf bookmarkedIds db filterOptions =
     new_Set (bookmarkedIds @ map fst (materialQuantityMap (resolveDemand filterOptions db bookmarkedIds)) @
       (case hiddenSourceItems filterOptions of Some h \<Rightarrow> h | None \<Rightarrow> []))"

definition groupsOf :: "string list \<Rightarrow> Store \<Rightarrow> MaterialFilterOptions
    \<Rightarrow> (string \<times> SourceGroup) list" where
  "groupsOf bookmarkedIds db filterOptions =
     discoverSources db (map fst (materialQuantityMap (resolveDemand filterOptions db bookmarkedIds)))
       (excludedIdsOf bookmarkedIds db filterOptions)"

definition allSourcesOf :: "string list \<Rightarrow> Store \<Rightarrow> ScoringMethod \<Rightarrow> MaterialFilterOptions
    \<Rightarrow> error + SalvagingSource list" where
  "allSourcesOf bookmarkedIds db scoringMethod filterOptions =
     scoreGroups scoringMethod db (materialQuantityMap (resolveDemand filterOptions db bookmarkedIds))
       (js_sum (map snd (materialQuantityMap (resolveDemand filterOptions db bookmarkedIds))))
       (map snd (groupsOf bookmarkedIds db filterOptions))"

definition resultOf :: "Demand \<Rightarrow> SalvagingSource list \<Rightarrow> AggregatedMaterialsData" where
  "resultOf st allSources =
     (let buckets = fold splitSource allSources ([], []);
          salvage = js_sort (\<lambda>a b. js_sub (salvageScore b) (salvageScore a)) (fst buckets);
          recycle = js_sort (\<lambda>a b. js_sub (recycleScore b) (recycleScore a)) (snd buckets);
          maps = fold indexSource (salvage @ recycle) ([], [])
      in \<lparr>materials = js_sort (\<lambda>a b. Fin (real_of_int (totalQuantity b - totalQuantity a)))
                         (buildMaterials st),
          salvageSources = salvage,
          recycleSources = recycle,
          materialToSources = fst maps,
          sourceToMaterials = snd maps\<rparr>)"

text \<open>
  The three outcomes of step 5 for a scored source: dropped, pushed to
  \<^verbatim>\<open>recycleSources\<close>, pushed to \<^verbatim>\<open>salvageSources\<close>.
\<close>

definition bothZero :: "SalvagingSource \<Rightarrow> bool" where
  "bothZero s = (js_strict_eq (salvageScore s) (Fin 0) \<and> js_strict_eq (recycleScore s) (Fin 0))"

definition inRecycleBucket :: "SalvagingSource \<Rightarrow> bool" where
  "inRecycleBucket s =
     (\<not> bothZero s \<and>
      ((js_strict_eq (salvageScore s) (Fin 0) \<and> js_gt (recycleScore s) (Fin 0)) \<or>
       (\<not> (js_strict_eq (recycleScore s) (Fin 0) \<and> js_gt (salvageScore s) (Fin 0)) \<and>
        js_gt (js_div (recycleScore s) (salvageScore s)) (Fin RECYCLING_THRESHOLD))))"

definition inSalvageBucket :: "SalvagingSource \<Rightarrow> bool" where
  "inSalvageBucket s = (\<not> bothZero s \<and> \<not> inRecycleBucket s)"

text \<open>
  Example stores. Every item is Common, worth 100 and has no stack size; the bookmarked
  item is the gun.
\<close>

definition example_item :: "string \<Rightarrow> string \<Rightarrow> real \<Rightarrow> Item" where
  "example_item i n w =
     \<lparr>id_item = i, name = n, rarity = ''Common'', value_item = 100, weight_kg = w,
      stack_size = None\<rparr>"

definition all_rarities :: MaterialFilterOptions where
  "all_rarities =
     \<lparr>hideScrappyCollected = False,
      rarityFilters = {''Common'', ''Uncommon'', ''Rare'', ''Epic'', ''Legendary''},
      hiddenSourceItems = None, pausedBookmarks = None\<rparr>"

definition metal_requirement :: MaterialRequirement where
  "metal_requirement =
     \<lparr>item = example_item ''m'' ''Metal'' (1 / 2), totalQuantity = 5, requiredBy = [''gun'']\<rparr>"

text \<open>
  A crate and a barrel that both salvage and recycle into metal: the crate recycles
  much better than it salvages, the barrel does not.
\<close>

definition mixed_store :: Store where
  "mixed_store =
     \<lparr>items = [example_item ''gun'' ''Gun'' 3, example_item ''m'' ''Metal'' (1 / 2),
               example_item ''c'' ''Crate'' 2, example_item ''b'' ''Barrel'' 1],
      crafting_recipes = [\<lparr>item_id = ''gun'', ingredient_id = ''m'', quantity = 5\<rparr>],
      salvaging_outputs = [\<lparr>source_id = ''c'', output_id = ''m'', yield_quantity = 1\<rparr>,
                           \<lparr>source_id = ''b'', output_id = ''m'', yield_quantity = 2\<rparr>],
      recycling_outputs = [\<lparr>source_id = ''c'', output_id = ''m'', yield_quantity = 20\<rparr>,
                           \<lparr>source_id = ''b'', output_id = ''m'', yield_quantity = 1\<rparr>]\<rparr>"

definition crate_source :: SalvagingSource where
  "crate_source =
     \<lparr>source_item = example_item ''c'' ''Crate'' 2,
      salvageYields = [(''m'', 1)], recycleYields = [(''m'', 20)],
      salvageScore = Fin (12 / 5), recycleScore = Fin (17 / 2), baseName = ''Crate''\<rparr>"

definition barrel_source :: SalvagingSource where
  "barrel_source =
     \<lparr>source_item = example_item ''b'' ''Barrel'' 1,
      salvageYields = [(''m'', 2)], recycleYields = [(''m'', 1)],
      salvageScore = Fin (12 / 5), recycleScore = Fin (17 / 20), baseName = ''Barrel''\<rparr>"

definition mixed_result :: AggregatedMaterialsData where
  "mixed_result =
     \<lparr>materials = [metal_requirement],
      salvageSources = [barrel_source],
      recycleSources = [crate_source],
      materialToSources = [(''m'', [''b'', ''c''])],
      sourceToMaterials = [(''b'', [''m'']), (''c'', [''m''])]\<rparr>"

definition hide_barrel :: MaterialFilterOptions where
  "hide_barrel = all_rarities\<lparr>hiddenSourceItems := Some [''b'']\<rparr>"

definition hidden_result :: AggregatedMaterialsData where
  "hidden_result =
     \<lparr>materials = [metal_requirement],
      salvageSources = [],
      recycleSources = [crate_source],
      materialToSources = [(''m'', [''c''])],
      sourceToMaterials = [(''c'', [''m''])]\<rparr>"

definition ghost_edge :: CraftingRecipe where
  "ghost_edge = \<lparr>item_id = ''gun'', ingredient_id = ''ghost'', quantity = 7\<rparr>"

text \<open>
  A store for the material filter. The gun needs metal, metal parts (auto-collected),
  a gem (Rare) and an ingredient without an item row; the rifle needs metal too; the
  knife is bookmarked but paused; the axe is not bookmarked.
\<close>

definition filter_store :: Store where
  "filter_store =
     \<lparr>items = [example_item ''gun'' ''Gun'' 3, example_item ''rifle'' ''Rifle'' 4,
               example_item ''knife'' ''Knife'' 1, example_item ''axe'' ''Axe'' 2,
               example_item ''m'' ''Metal'' (1 / 2),
               example_item ''metal_parts'' ''Metal Parts'' (1 / 10),
               (example_item ''gem'' ''Gem'' (1 / 10))\<lparr>rarity := ''Rare''\<rparr>],
      crafting_recipes =
        [\<lparr>item_id = ''gun'', ingredient_id = ''m'', quantity = 5\<rparr>,
         \<lparr>item_id = ''gun'', ingredient_id = ''metal_parts'', quantity = 4\<rparr>,
         \<lparr>item_id = ''gun'', ingredient_id = ''gem'', quantity = 2\<rparr>,
         \<lparr>item_id = ''gun'', ingredient_id = ''ghost'', quantity = 7\<rparr>,
         \<lparr>item_id = ''rifle'', ingredient_id = ''m'', quantity = 3\<rparr>,
         \<lparr>item_id = ''knife'', ingredient_id = ''m'', quantity = 10\<rparr>,
         \<lparr>item_id = ''axe'', ingredient_id = ''m'', quantity = 100\<rparr>],
      salvaging_outputs = [],
      recycling_outputs = []\<rparr>"

definition common_only :: MaterialFilterOptions where
  "common_only =
     \<lparr>hideScrappyCollected = True,
      rarityFilters = {''Common'', ''Uncommon''},
      hiddenSourceItems = None, pausedBookmarks = Some {''knife''}\<rparr>"

definition filter_result :: AggregatedMaterialsData where
  "filter_result =
     \<lparr>materials =
        [\<lparr>item = example_item ''m'' ''Metal'' (1 / 2), totalQuantity = 8,
          requiredBy = [''gun'', ''rifle'']\<rparr>],
      salvageSources = [], recycleSources = [],
      materialToSources = [], sourceToMaterials = []\<rparr>"

text \<open>
  A store in which the gun needs \<open>2 ^ 53\<close> units of metal and the rifle one more.
\<close>

definition big_store :: Store where
  "big_store =
     \<lparr>items = [example_item ''gun'' ''Gun'' 3, example_item ''rifle'' ''Rifle'' 4,
               example_item ''m'' ''Metal'' (1 / 2)],
      crafting_recipes =
        [\<lparr>item_id = ''gun'', ingredient_id = ''m'', quantity = 9007199254740992\<rparr>,
         \<lparr>item_id = ''rifle'', ingredient_id = ''m'', quantity = 1\<rparr>],
      salvaging_outputs = [],
      recycling_outputs = []\<rparr>"

definition big_result :: AggregatedMaterialsData where
  "big_result =
     \<lparr>materials =
        [\<lparr>item = example_item ''m'' ''Metal'' (1 / 2), totalQuantity = 9007199254740992,
          requiredBy = [''gun'', ''rifle'']\<rparr>],
      salvageSources = [], recycleSources = [],
      materialToSources = [], sourceToMaterials = []\<rparr>"

text \<open>
  Three tiers of an anvil: all three salvage into wire, only the first one into metal,
  one unit of it.
\<close>

definition anvil_store :: Store where
  "anvil_store =
     \<lparr>items = [example_item ''gun'' ''Gun'' 3, example_item ''m'' ''Metal'' (1 / 2),
               example_item ''w'' ''Wire'' (1 / 5), example_item ''a1'' ''Anvil I'' 2,
               example_item ''a2'' ''Anvil II'' 2, example_item ''a3'' ''Anvil III'' 2],
      crafting_recipes = [\<lparr>item_id = ''gun'', ingredient_id = ''m'', quantity = 5\<rparr>,
                          \<lparr>item_id = ''gun'', ingredient_id = ''w'', quantity = 3\<rparr>],
      salvaging_outputs = [\<lparr>source_id = ''a1'', output_id = ''m'', yield_quantity = 1\<rparr>,
                           \<lparr>source_id = ''a1'', output_id = ''w'', yield_quantity = 5\<rparr>,
                           \<lparr>source_id = ''a2'', output_id = ''w'', yield_quantity = 5\<rparr>,
                           \<lparr>source_id = ''a3'', output_id = ''w'', yield_quantity = 5\<rparr>],
      recycling_outputs = []\<rparr>"

definition anvil_result :: AggregatedMaterialsData where
  "anvil_result =
     \<lparr>materials =
        [metal_requirement,
         \<lparr>item = example_item ''w'' ''Wire'' (1 / 5), totalQuantity = 3,
          requiredBy = [''gun'']\<rparr>],
      salvageSources =
        [\<lparr>source_item = example_item ''a1'' ''Anvil I'' 2,
          salvageYields = [(''m'', 0), (''w'', 5)], recycleYields = [],
          salvageScore = Fin (9 / 4), recycleScore = Fin 0, baseName = ''Anvil''\<rparr>],
      recycleSources = [],
      materialToSources = [(''m'', [''a1'']), (''w'', [''a1''])],
      sourceToMaterials = [(''a1'', [''m'', ''w''])]\<rparr>"

text \<open>
  Three tiers of an anvil again: the first one salvages into one unit of metal, the
  other two recycle into one unit each.
\<close>

definition tiers_store :: Store where
  "tiers_store =
     \<lparr>items = [example_item ''gun'' ''Gun'' 3, example_item ''m'' ''Metal'' (1 / 2),
               example_item ''a1'' ''Anvil I'' 2, example_item ''a2'' ''Anvil II'' 2,
               example_item ''a3'' ''Anvil III'' 2],
      crafting_recipes = [\<lparr>item_id = ''gun'', ingredient_id = ''m'', quantity = 5\<rparr>],
      salvaging_outputs = [\<lparr>source_id = ''a1'', output_id = ''m'', yield_quantity = 1\<rparr>],
      recycling_outputs = [\<lparr>source_id = ''a2'', output_id = ''m'', yield_quantity = 1\<rparr>,
                           \<lparr>source_id = ''a3'', output_id = ''m'', yield_quantity = 1\<rparr>]\<rparr>"

definition tiers_result :: AggregatedMaterialsData where
  "tiers_result =
     \<lparr>materials = [metal_requirement],
      salvageSources =
        [\<lparr>source_item = example_item ''a1'' ''Anvil I'' 2,
          salvageYields = [(''m'', 0)], recycleYields = [(''m'', 1)],
          salvageScore = NaN, recycleScore = Fin (17 / 40), baseName = ''Anvil''\<rparr>],
      recycleSources = [],
      materialToSources = [(''m'', [''a1''])],
      sourceToMaterials = [(''a1'', [''m''])]\<rparr>"

text \<open>A crate of weight 2 that salvages into five units of a light wire.\<close>

definition wire_store :: Store where
  "wire_store =
     \<lparr>items = [example_item ''gun'' ''Gun'' 3, example_item ''w'' ''Wire'' (1 / 10),
               example_item ''c'' ''Crate'' 2],
      crafting_recipes = [\<lparr>item_id = ''gun'', ingredient_id = ''w'', quantity = 3\<rparr>],
      salvaging_outputs = [\<lparr>source_id = ''c'', output_id = ''w'', yield_quantity = 5\<rparr>],
      recycling_outputs = []\<rparr>"

definition wire_result :: "jsnum \<Rightarrow> AggregatedMaterialsData" where
  "wire_result score =
     \<lparr>materials =
        [\<lparr>item = example_item ''w'' ''Wire'' (1 / 10), totalQuantity = 3,
          requiredBy = [''gun'']\<rparr>],
      salvageSources =
        [\<lparr>source_item = example_item ''c'' ''Crate'' 2,
          salvageYields = [(''w'', 5)], recycleYields = [],
          salvageScore = score, recycleScore = Fin 0, baseName = ''Crate''\<rparr>],
      recycleSources = [],
      materialToSources = [(''w'', [''c''])],
      sourceToMaterials = [(''c'', [''w''])]\<rparr>"

text \<open>A group of one crate whose salvage yield, four units of metal, weighs 2.\<close>

definition heavy_group :: SourceGroup where
  "heavy_group =
     \<lparr>group_items = [example_item ''c'' ''Crate'' 2],
      salvageYieldsMap = [(''m'', 4)], recycleYieldsMap = [],
      group_baseName = ''Crate''\<rparr>"

definition heavy_source :: "jsnum \<Rightarrow> SalvagingSource" where
  "heavy_source score =
     \<lparr>source_item = example_item ''c'' ''Crate'' 2,
      salvageYields = [(''m'', 4)], recycleYields = [],
      salvageScore = score, recycleScore = Fin 0, baseName = ''Crate''\<rparr>"

text \<open>
  The ids that a relationship map lists under a key: the elements of
  \<^verbatim>\<open>map.get(key)\<close>, none when the key is absent.
\<close>

definition listed :: "(string \<times> string list) list \<Rightarrow> string \<Rightarrow> string set" where
  "listed al k = (case map_of al k of Some l \<Rightarrow> set l | None \<Rightarrow> {})"

text \<open>The keys of \<^verbatim>\<open>allYields\<close> of a source.\<close>

definition yieldKeys :: "SalvagingSource \<Rightarrow> string list" where
  "yieldKeys source = map fst (new_Map (salvageYields source @ recycleYields source))"

text \<open>The two relationship maps agree, and every list in them is duplicate-free.\<close>

definition maps_consistent :: "(string \<times> string list) list \<times> (string \<times> string list) list \<Rightarrow> bool"
  where
  "maps_consistent maps =
     ((\<forall>m s. s \<in> listed (fst maps) m \<longleftrightarrow> m \<in> listed (snd maps) s) \<and>
      (\<forall>m l. map_of (fst maps) m = Some l \<longrightarrow> distinct l) \<and>
      (\<forall>s l. map_of (snd maps) s = Some l \<longrightarrow> distinct l) \<and>
      distinct (map fst (fst maps)) \<and> distinct (map fst (snd maps)))"

section \<open>Properties\<close>

subsection \<open>Maps, sets and sorting\<close>

lemma set_update_subset: "set (AList.update k v al) \<subseteq> insert (k, v) (set al)"
  by (induction al) auto

lemma set_set_add: "set (set_add x s) = insert x (set s)"
  by (auto simp: set_add_def)

lemma distinct_set_add: "distinct s \<Longrightarrow> distinct (set_add x s)"
  by (simp add: set_add_def)

lemma set_fold_set_add: "set (fold set_add xs s) = set xs \<union> set s"
  by (induction xs arbitrary: s) (auto simp: set_set_add)

lemma set_new_Set: "set (new_Set xs) = set xs"
  by (simp add: new_Set_def set_fold_set_add)

lemma to_double_exact: "\<bar>n\<bar> \<le> 2 ^ 53 \<Longrightarrow> to_double n = n"
  by (simp add: to_double_def)

lemma js_plus_exact: "\<bar>a + b\<bar> \<le> 2 ^ 53 \<Longrightarrow> js_plus a b = a + b"
  by (simp add: js_plus_def to_double_exact)

lemma sum_list_update:
  "sum_list (map snd (AList.update k v al))
     = sum_list (map snd al) - (case map_of al k of Some c \<Rightarrow> c | None \<Rightarrow> 0) + (v::int)"
  by (induction al) auto

lemma sum_list_abs_update:
  "sum_list (map (\<lambda>p. \<bar>snd p\<bar>) (AList.update k v al))
     = sum_list (map (\<lambda>p. \<bar>snd p\<bar>) al)
       - \<bar>case map_of al k of Some c \<Rightarrow> c | None \<Rightarrow> 0\<bar> + \<bar>v::int\<bar>"
  by (induction al) auto

lemma abs_value_le_sum:
  "\<bar>case map_of al k of Some c \<Rightarrow> c | None \<Rightarrow> (0::int)\<bar> \<le> sum_list (map (\<lambda>p. \<bar>snd p\<bar>) al)"
proof (induction al)
  case Nil
  then show ?case by simp
next
  case (Cons p al)
  have "0 \<le> sum_list (map (\<lambda>p. \<bar>snd p\<bar>) al)"
    by (rule sum_list_nonneg) auto
  with Cons show ?case by auto
qed

lemma set_sort_insert: "set (sort_insert c x ys) = insert x (set ys)"
  by (induction ys) auto

lemma set_js_sort: "set (js_sort c xs) = set xs"
  by (induction xs) (auto simp: js_sort_def set_sort_insert)

lemma sum_list_sort_insert:
  "sum_list (map f (sort_insert c x ys)) = f x + sum_list (map f ys)" for f :: "'a \<Rightarrow> int"
  by (induction ys) auto

lemma sum_list_js_sort: "sum_list (map f (js_sort c xs)) = sum_list (map f xs)" for f :: "'a \<Rightarrow> int"
  by (induction xs) (auto simp: js_sort_def sum_list_sort_insert)

lemma distinct_map_sort_insert:
  "distinct (map f (sort_insert c x ys)) = (f x \<notin> f ` set ys \<and> distinct (map f ys))"
  by (induction ys) (auto simp: set_sort_insert)

lemma distinct_map_js_sort: "distinct (map f (js_sort c xs)) = distinct (map f xs)"
  by (induction xs) (auto simp: js_sort_def distinct_map_sort_insert set_js_sort[unfolded js_sort_def])

subsection \<open>The material demand\<close>

lemma shouldIncludeMaterial_accepted:
  "shouldIncludeMaterial material filterOptions = acceptedByFilters filterOptions material"
  by (simp add: shouldIncludeMaterial_def acceptedByFilters_def SCRAPPY_MATERIALS_def)

lemma countedEdge_iff:
  "countedEdge B db fo e \<longleftrightarrow>
     item_id e \<in> set B \<and> \<not> isPaused fo (item_id e) \<and> ingredientPasses fo db e"
  by (simp add: countedEdge_def isPaused_def ingredientPasses_def itemById_def
      shouldIncludeMaterial_accepted split: option.splits)

lemma addRecipe_inv:
  assumes "demand_inv db st"
  shows "demand_inv db (addRecipe fo db i r st)"
  using assms
  by (auto simp: demand_inv_def addRecipe_def Let_def AList.update_conv'
      split: option.splits if_splits)

lemma addRecipe_quantities:
  assumes "demand_inv db st"
  shows "materialQuantityMap (addRecipe fo db i r st) =
     (if ingredientPasses fo db r
      then AList.update (ingredient_id r)
             (js_plus (case map_of (materialQuantityMap st) (ingredient_id r) of
                         Some c \<Rightarrow> c | None \<Rightarrow> 0)
                (to_double (quantity r)))
             (materialQuantityMap st)
      else materialQuantityMap st)"
proof (cases "itemById db (ingredient_id r)")
  case None
  with assms have "map_of (materialItemsMap st) (ingredient_id r) = None"
    by (cases "map_of (materialItemsMap st) (ingredient_id r)") (auto simp: demand_inv_def)
  with None show ?thesis
    by (simp add: addRecipe_def ingredientPasses_def)
next
  case (Some mi)
  with assms have m: "map_of (materialItemsMap st) (ingredient_id r) = None
     \<or> map_of (materialItemsMap st) (ingredient_id r) = Some mi"
    by (cases "map_of (materialItemsMap st) (ingredient_id r)") (auto simp: demand_inv_def)
  show ?thesis
    using m Some
    by (auto simp: addRecipe_def ingredientPasses_def Let_def AList.update_conv')
qed

lemma abs_sum_nonneg: "0 \<le> sum_list (map (\<lambda>x. \<bar>f x :: int\<bar>) xs)"
  by (rule sum_list_nonneg) auto

lemma update_exact:
  fixes al :: "(string \<times> int) list"
  assumes "sum_list (map (\<lambda>p. \<bar>snd p\<bar>) al) + \<bar>q\<bar> \<le> 2 ^ 53"
  shows "sum_list (map snd (AList.update k
            (js_plus (case map_of al k of Some c \<Rightarrow> c | None \<Rightarrow> 0) (to_double q)) al))
          = sum_list (map snd al) + q"
    and "sum_list (map (\<lambda>p. \<bar>snd p\<bar>) (AList.update k
            (js_plus (case map_of al k of Some c \<Rightarrow> c | None \<Rightarrow> 0) (to_double q)) al))
          \<le> sum_list (map (\<lambda>p. \<bar>snd p\<bar>) al) + \<bar>q\<bar>"
proof -
  let ?c = "case map_of al k of Some c \<Rightarrow> c | None \<Rightarrow> 0"
  let ?A = "sum_list (map (\<lambda>p. \<bar>snd p\<bar>) al)"
  have c: "\<bar>?c\<bar> \<le> ?A"
    by (rule abs_value_le_sum)
  have A: "0 \<le> ?A"
    by (rule abs_sum_nonneg)
  from assms A have "\<bar>q\<bar> \<le> 2 ^ 53"
    by linarith
  then have q: "to_double q = q"
    by (rule to_double_exact)
  from c assms have "\<bar>?c + q\<bar> \<le> 2 ^ 53"
    by linarith
  then have plus: "js_plus ?c q = ?c + q"
    by (rule js_plus_exact)
  show "sum_list (map snd (AList.update k (js_plus ?c (to_double q)) al))
          = sum_list (map snd al) + q"
    unfolding q plus sum_list_update by linarith
  show "sum_list (map (\<lambda>p. \<bar>snd p\<bar>) (AList.update k (js_plus ?c (to_double q)) al)) \<le> ?A + \<bar>q\<bar>"
    unfolding q plus sum_list_abs_update by linarith
qed

text \<open>
  The sum of the quantity map and the sum of its absolute values, after a list of edges
  has been added, as long as the absolute values stay within \<open>2 ^ 53\<close>.
\<close>

lemma fold_addRecipe_sums:
  assumes "demand_inv db st"
    and "sum_list (map (\<lambda>p. \<bar>snd p\<bar>) (materialQuantityMap st))
       + sum_list (map (\<lambda>r. \<bar>quantity r\<bar>) (filter (ingredientPasses fo db) rs)) \<le> 2 ^ 53"
  shows "sum_list (map snd (materialQuantityMap (fold (addRecipe fo db i) rs st)))
       = sum_list (map snd (materialQuantityMap st))
         + sum_list (map quantity (filter (ingredientPasses fo db) rs))
     \<and> sum_list (map (\<lambda>p. \<bar>snd p\<bar>) (materialQuantityMap (fold (addRecipe fo db i) rs st)))
       \<le> sum_list (map (\<lambda>p. \<bar>snd p\<bar>) (materialQuantityMap st))
         + sum_list (map (\<lambda>r. \<bar>quantity r\<bar>) (filter (ingredientPasses fo db) rs))"
  using assms
proof (induction rs arbitrary: st)
  case Nil
  show ?case by simp
next
  case (Cons r rs)
  let ?st = "addRecipe fo db i r st"
  let ?rest = "sum_list (map (\<lambda>r. \<bar>quantity r\<bar>) (filter (ingredientPasses fo db) rs))"
  have rest: "0 \<le> ?rest"
    by (rule abs_sum_nonneg)
  have inv: "demand_inv db ?st"
    using Cons.prems(1) by (rule addRecipe_inv)
  show ?case
  proof (cases "ingredientPasses fo db r")
    case False
    then have same: "materialQuantityMap ?st = materialQuantityMap st"
      by (simp add: addRecipe_quantities[OF Cons.prems(1)])
    from Cons.prems(2) False
    have "sum_list (map (\<lambda>p. \<bar>snd p\<bar>) (materialQuantityMap ?st)) + ?rest \<le> 2 ^ 53"
      by (simp add: same)
    from Cons.IH[OF inv this] False show ?thesis
      by (simp add: same)
  next
    case True
    let ?A = "sum_list (map (\<lambda>p. \<bar>snd p\<bar>) (materialQuantityMap st))"
    from Cons.prems(2) True have total: "?A + \<bar>quantity r\<bar> + ?rest \<le> 2 ^ 53"
      by simp
    with rest have "?A + \<bar>quantity r\<bar> \<le> 2 ^ 53"
      by linarith
    from update_exact[OF this, of "ingredient_id r"] True
    have s: "sum_list (map snd (materialQuantityMap ?st))
        = sum_list (map snd (materialQuantityMap st)) + quantity r"
      and a: "sum_list (map (\<lambda>p. \<bar>snd p\<bar>) (materialQuantityMap ?st)) \<le> ?A + \<bar>quantity r\<bar>"
      by (simp_all add: addRecipe_quantities[OF Cons.prems(1)])
    from a total
    have "sum_list (map (\<lambda>p. \<bar>snd p\<bar>) (materialQuantityMap ?st)) + ?rest \<le> 2 ^ 53"
      by linarith
    from Cons.IH[OF inv this] s a True show ?thesis
      by simp
  qed
qed

lemma fold_addRecipe_inv:
  "demand_inv db st \<Longrightarrow> demand_inv db (fold (addRecipe fo db i) rs st)"
  by (induction rs arbitrary: st) (auto simp: addRecipe_inv)

lemma addBookmark_inv:
  "demand_inv db st \<Longrightarrow> demand_inv db (addBookmark fo db i st)"
  by (simp add: addBookmark_def fold_addRecipe_inv)

text \<open>The edges that one bookmark adds.\<close>

lemma addBookmark_sums:
  assumes "demand_inv db st"
    and "sum_list (map (\<lambda>p. \<bar>snd p\<bar>) (materialQuantityMap st))
       + sum_list (map (\<lambda>r. \<bar>quantity r\<bar>)
           (filter (\<lambda>r. item_id r = i \<and> \<not> isPaused fo i \<and> ingredientPasses fo db r)
              (crafting_recipes db))) \<le> 2 ^ 53"
  shows "sum_list (map snd (materialQuantityMap (addBookmark fo db i st)))
       = sum_list (map snd (materialQuantityMap st))
         + sum_list (map quantity
             (filter (\<lambda>r. item_id r = i \<and> \<not> isPaused fo i \<and> ingredientPasses fo db r)
                (crafting_recipes db)))
     \<and> sum_list (map (\<lambda>p. \<bar>snd p\<bar>) (materialQuantityMap (addBookmark fo db i st)))
       \<le> sum_list (map (\<lambda>p. \<bar>snd p\<bar>) (materialQuantityMap st))
         + sum_list (map (\<lambda>r. \<bar>quantity r\<bar>)
             (filter (\<lambda>r. item_id r = i \<and> \<not> isPaused fo i \<and> ingredientPasses fo db r)
                (crafting_recipes db)))"
proof (cases "isPaused fo i")
  case True
  then have "addBookmark fo db i st = st"
    by (simp add: addBookmark_def isPaused_def)
  with True show ?thesis by simp
next
  case False
  then have run: "addBookmark fo db i st
      = fold (addRecipe fo db i) (filter (\<lambda>r. item_id r = i) (crafting_recipes db)) st"
    by (simp add: addBookmark_def isPaused_def recipesFor_def)
  have flt: "filter (ingredientPasses fo db) (filter (\<lambda>r. item_id r = i) (crafting_recipes db))
      = filter (\<lambda>r. item_id r = i \<and> \<not> isPaused fo i \<and> ingredientPasses fo db r)
          (crafting_recipes db)"
    using False by (simp add: conj_commute)
  from assms(2)
  have "sum_list (map (\<lambda>p. \<bar>snd p\<bar>) (materialQuantityMap st))
       + sum_list (map (\<lambda>r. \<bar>quantity r\<bar>)
           (filter (ingredientPasses fo db)
              (filter (\<lambda>r. item_id r = i) (crafting_recipes db)))) \<le> 2 ^ 53"
    unfolding flt .
  from fold_addRecipe_sums[OF assms(1) this, of i] show ?thesis
    unfolding run flt .
qed

lemma sum_list_filter_disj:
  fixes f :: "'a \<Rightarrow> int"
  assumes "\<And>x. \<not> (P x \<and> Q x)"
  shows "sum_list (map f (filter (\<lambda>x. P x \<or> Q x) xs))
     = sum_list (map f (filter P xs)) + sum_list (map f (filter Q xs))"
  using assms by (induction xs) auto

lemma fold_addBookmark_inv:
  "demand_inv db st \<Longrightarrow> demand_inv db (fold (addBookmark fo db) B st)"
  by (induction B arbitrary: st) (auto simp: addBookmark_inv)

lemma fold_addBookmark_sums:
  assumes "demand_inv db st" "distinct B"
    and "sum_list (map (\<lambda>p. \<bar>snd p\<bar>) (materialQuantityMap st))
       + sum_list (map (\<lambda>r. \<bar>quantity r\<bar>)
           (filter (\<lambda>r. item_id r \<in> set B \<and> \<not> isPaused fo (item_id r) \<and> ingredientPasses fo db r)
              (crafting_recipes db))) \<le> 2 ^ 53"
  shows "sum_list (map snd (materialQuantityMap (fold (addBookmark fo db) B st)))
       = sum_list (map snd (materialQuantityMap st))
         + sum_list (map quantity
             (filter (\<lambda>r. item_id r \<in> set B \<and> \<not> isPaused fo (item_id r) \<and> ingredientPasses fo db r)
                (crafting_recipes db)))"
  using assms
proof (induction B arbitrary: st)
  case Nil
  show ?case by simp
next
  case (Cons b B)
  let ?P = "\<lambda>r. item_id r = b \<and> \<not> isPaused fo b \<and> ingredientPasses fo db r"
  let ?Q = "\<lambda>r. item_id r \<in> set B \<and> \<not> isPaused fo (item_id r) \<and> ingredientPasses fo db r"
  let ?A = "\<lambda>st. sum_list (map (\<lambda>p. \<bar>snd p\<bar>) (materialQuantityMap st))"
  let ?S = "\<lambda>st. sum_list (map snd (materialQuantityMap st))"
  have split: "(\<lambda>r. item_id r \<in> set (b # B) \<and> \<not> isPaused fo (item_id r) \<and> ingredientPasses fo db r)
     = (\<lambda>r. ?P r \<or> ?Q r)"
    by auto
  have disj: "\<And>r. \<not> (?P r \<and> ?Q r)"
    using Cons.prems(2) by auto
  have absplit: "sum_list (map (\<lambda>r. \<bar>quantity r\<bar>) (filter (\<lambda>r. ?P r \<or> ?Q r) (crafting_recipes db)))
      = sum_list (map (\<lambda>r. \<bar>quantity r\<bar>) (filter ?P (crafting_recipes db)))
        + sum_list (map (\<lambda>r. \<bar>quantity r\<bar>) (filter ?Q (crafting_recipes db)))"
    by (rule sum_list_filter_disj[OF disj])
  have qsplit: "sum_list (map quantity (filter (\<lambda>r. ?P r \<or> ?Q r) (crafting_recipes db)))
      = sum_list (map quantity (filter ?P (crafting_recipes db)))
        + sum_list (map quantity (filter ?Q (crafting_recipes db)))"
    by (rule sum_list_filter_disj[OF disj])
  have q0: "0 \<le> sum_list (map (\<lambda>r. \<bar>quantity r\<bar>) (filter ?Q (crafting_recipes db)))"
    by (rule abs_sum_nonneg)
  from Cons.prems(3)
  have bound: "?A st + (sum_list (map (\<lambda>r. \<bar>quantity r\<bar>) (filter ?P (crafting_recipes db)))
        + sum_list (map (\<lambda>r. \<bar>quantity r\<bar>) (filter ?Q (crafting_recipes db)))) \<le> 2 ^ 53"
    unfolding split absplit .
  with q0
  have "?A st + sum_list (map (\<lambda>r. \<bar>quantity r\<bar>) (filter ?P (crafting_recipes db))) \<le> 2 ^ 53"
    by linarith
  from addBookmark_sums[OF Cons.prems(1) this]
  have s1: "?S (addBookmark fo db b st)
        = ?S st + sum_list (map quantity (filter ?P (crafting_recipes db)))"
    and a1: "?A (addBookmark fo db b st)
        \<le> ?A st + sum_list (map (\<lambda>r. \<bar>quantity r\<bar>) (filter ?P (crafting_recipes db)))"
    by blast+
  have inv: "demand_inv db (addBookmark fo db b st)"
    using Cons.prems(1) by (rule addBookmark_inv)
  from Cons.prems(2) have dB: "distinct B"
    by simp
  from a1 bound
  have "?A (addBookmark fo db b st)
      + sum_list (map (\<lambda>r. \<bar>quantity r\<bar>) (filter ?Q (crafting_recipes db))) \<le> 2 ^ 53"
    by linarith
  from Cons.IH[OF inv dB this]
  have "?S (fold (addBookmark fo db) (b # B) st)
      = ?S (addBookmark fo db b st) + sum_list (map quantity (filter ?Q (crafting_recipes db)))"
    by simp
  with s1 show ?case
    unfolding split qsplit by linarith
qed

lemma demand_inv_empty:
  "demand_inv db \<lparr>materialQuantityMap = [], materialRequiredByMap = [], materialItemsMap = []\<rparr>"
  by (simp add: demand_inv_def)

lemma resolveDemand_inv: "demand_inv db (resolveDemand fo db B)"
  by (simp add: resolveDemand_def fold_addBookmark_inv demand_inv_empty)

lemma resolveDemand_sum:
  assumes "distinct B"
    and "sum_list (map (\<lambda>r. \<bar>quantity r\<bar>) (filter (countedEdge B db fo) (crafting_recipes db)))
       \<le> 2 ^ 53"
  shows "sum_list (map snd (materialQuantityMap (resolveDemand fo db B)))
     = sum_list (map quantity (filter (countedEdge B db fo) (crafting_recipes db)))"
proof -
  have ce: "countedEdge B db fo
      = (\<lambda>r. item_id r \<in> set B \<and> \<not> isPaused fo (item_id r) \<and> ingredientPasses fo db r)"
    by (rule ext) (rule countedEdge_iff)
  let ?st = "\<lparr>materialQuantityMap = [], materialRequiredByMap = [], materialItemsMap = []\<rparr>"
  from assms(2)
  have "sum_list (map (\<lambda>p. \<bar>snd p\<bar>) (materialQuantityMap ?st))
       + sum_list (map (\<lambda>r. \<bar>quantity r\<bar>)
           (filter (\<lambda>r. item_id r \<in> set B \<and> \<not> isPaused fo (item_id r) \<and> ingredientPasses fo db r)
              (crafting_recipes db))) \<le> 2 ^ 53"
    unfolding ce by simp
  from fold_addBookmark_sums[OF demand_inv_empty assms(1) this] show ?thesis
    unfolding ce resolveDemand_def by simp
qed

lemma buildMaterials_sum_aux:
  "(\<forall>k\<in>fst ` set qm. map_of im k \<noteq> None) \<Longrightarrow>
   sum_list (map totalQuantity (concat (map (\<lambda>(materialId, total).
         case map_of im materialId of
           Some it \<Rightarrow>
             [\<lparr>item = it, totalQuantity = total,
               requiredBy = (case map_of rm materialId of
                               Some s \<Rightarrow> s | None \<Rightarrow> [])\<rparr>]
         | None \<Rightarrow> []) qm))) = sum_list (map snd qm)"
  by (induction qm) (auto split: option.splits)

lemma buildMaterials_sum:
  assumes "demand_inv db st"
  shows "sum_list (map totalQuantity (buildMaterials st)) = sum_list (map snd (materialQuantityMap st))"
proof -
  have "\<forall>k\<in>fst ` set (materialQuantityMap st). map_of (materialItemsMap st) k \<noteq> None"
    using assms by (auto simp: demand_inv_def map_of_eq_None_iff)
  then show ?thesis
    unfolding buildMaterials_def by (rule buildMaterials_sum_aux)
qed

subsection \<open>The groups of sources\<close>

lemma groupFor_items:
  assumes "groups_inv P gs" "it \<in> set (group_items (groupFor gs k))"
  shows "P k it"
proof (cases "map_of gs k")
  case None
  with assms(2) show ?thesis by (simp add: groupFor_def)
next
  case (Some g)
  then have "(k, g) \<in> set gs" by (rule map_of_SomeD)
  with assms Some show ?thesis by (auto simp: groupFor_def groups_inv_def)
qed

lemma addItem_set: "set (addItem src its) \<subseteq> insert src (set its)"
  by (auto simp: addItem_def)

lemma addItem_nonempty: "addItem src its \<noteq> []"
  by (auto simp: addItem_def)

lemma groups_inv_update:
  assumes "groups_inv P gs" "group_items g \<noteq> []" "\<And>it. it \<in> set (group_items g) \<Longrightarrow> P k it"
  shows "groups_inv P (AList.update k g gs)"
proof -
  have "\<And>k' g'. (k', g') \<in> set (AList.update k g gs) \<Longrightarrow> (k', g') = (k, g) \<or> (k', g') \<in> set gs"
    using set_update_subset[of k g gs] by blast
  then show ?thesis
    using assms unfolding groups_inv_def by (fastforce simp: distinct_update)
qed

lemma groups_inv_add:
  assumes inv: "groups_inv P gs" and src: "P k src"
    and items: "group_items g = addItem src (group_items (groupFor gs k))"
  shows "groups_inv P (AList.update k g gs)"
proof (rule groups_inv_update[OF inv])
  show "group_items g \<noteq> []"
    unfolding items by (rule addItem_nonempty)
next
  fix it
  assume "it \<in> set (group_items g)"
  then have "it = src \<or> it \<in> set (group_items (groupFor gs k))"
    unfolding items using addItem_set[of src] by auto
  then show "P k it"
    using src groupFor_items[OF inv] by auto
qed

lemma addSalvageSource_inv:
  assumes "groups_inv P gs" "P (getBaseName (name (snd src))) (snd src)"
  shows "groups_inv P (addSalvageSource m src gs)"
  unfolding addSalvageSource_def Let_def
  by (rule groups_inv_add[OF assms]) simp

lemma addRecycleSource_inv:
  assumes "groups_inv P gs" "P (getBaseName (name (snd src))) (snd src)"
  shows "groups_inv P (addRecycleSource m src gs)"
  unfolding addRecycleSource_def Let_def
  by (rule groups_inv_add[OF assms]) simp

lemma outputsFor_row_ok:
  "src \<in> set (outputsFor table (items db) m ex) \<Longrightarrow>
   row_ok db ex (getBaseName (name (snd src))) (snd src)"
  by (auto simp: outputsFor_def row_ok_def)

lemma fold_addSalvageSource_inv:
  "groups_inv P gs \<Longrightarrow> (\<And>src. src \<in> set rows \<Longrightarrow> P (getBaseName (name (snd src))) (snd src))
   \<Longrightarrow> groups_inv P (fold (addSalvageSource m) rows gs)"
  by (induction rows arbitrary: gs) (auto simp: addSalvageSource_inv)

lemma fold_addRecycleSource_inv:
  "groups_inv P gs \<Longrightarrow> (\<And>src. src \<in> set rows \<Longrightarrow> P (getBaseName (name (snd src))) (snd src))
   \<Longrightarrow> groups_inv P (fold (addRecycleSource m) rows gs)"
  by (induction rows arbitrary: gs) (auto simp: addRecycleSource_inv)

lemma salvage_queries_inv:
  "groups_inv (row_ok db ex) gs \<Longrightarrow>
   groups_inv (row_ok db ex)
     (fold (\<lambda>materialId. fold (addSalvageSource materialId)
        (outputsFor (salvaging_outputs db) (items db) materialId ex)) ms gs)"
  by (induction ms arbitrary: gs) (auto simp: fold_addSalvageSource_inv outputsFor_row_ok)

lemma recycle_queries_inv:
  "groups_inv (row_ok db ex) gs \<Longrightarrow>
   groups_inv (row_ok db ex)
     (fold (\<lambda>materialId. fold (addRecycleSource materialId)
        (outputsFor (recycling_outputs db) (items db) materialId ex)) ms gs)"
  by (induction ms arbitrary: gs) (auto simp: fold_addRecycleSource_inv outputsFor_row_ok)

lemma discoverSources_inv: "groups_inv (row_ok db ex) (discoverSources db ms ex)"
  unfolding discoverSources_def
  by (intro recycle_queries_inv salvage_queries_inv) (simp add: groups_inv_def)

lemma scoreGroup_Inr:
  "group_items g \<noteq> [] \<Longrightarrow> \<exists>s. scoreGroup sm db qm td g = Inr s"
  by (cases "group_items g") (auto simp: scoreGroup_def Let_def)

lemma scoreGroups_Inr:
  "\<forall>g\<in>set gs. group_items g \<noteq> [] \<Longrightarrow>
   \<exists>ss. scoreGroups sm db qm td gs = Inr ss \<and>
        list_all2 (\<lambda>s g. scoreGroup sm db qm td g = Inr s) ss (filter (\<lambda>g. \<not> skipped g) gs)"
proof (induction gs)
  case Nil
  then show ?case by simp
next
  case (Cons g gs)
  then obtain ss where ss: "scoreGroups sm db qm td gs = Inr ss"
     "list_all2 (\<lambda>s g. scoreGroup sm db qm td g = Inr s) ss (filter (\<lambda>g. \<not> skipped g) gs)"
    by auto
  from Cons.prems have "group_items g \<noteq> []" by simp
  then obtain s where s: "scoreGroup sm db qm td g = Inr s"
    using scoreGroup_Inr[of g sm db qm td] by blast
  show ?case using ss s by (auto simp: skipped_def)
qed

subsection \<open>The result as a function of the scored sources\<close>

lemma aggregateMaterials_unfold:
  "aggregateMaterials B db sm fo =
     (case allSourcesOf B db sm fo of
        Inl e \<Rightarrow> Inl e
      | Inr allSources \<Rightarrow> Inr (resultOf (resolveDemand fo db B) allSources))"
  by (simp add: aggregateMaterials_def allSourcesOf_def groupsOf_def excludedIdsOf_def
      resultOf_def Let_def split: sum.splits)

lemma groupsOf_inv:
  "groups_inv (row_ok db (excludedIdsOf B db fo)) (groupsOf B db fo)"
  unfolding groupsOf_def by (rule discoverSources_inv)

lemma allSourcesOf_Inr:
  "\<exists>ss. allSourcesOf B db sm fo = Inr ss \<and>
     list_all2 (\<lambda>s g. scoreGroup sm db (materialQuantityMap (resolveDemand fo db B))
          (js_sum (map snd (materialQuantityMap (resolveDemand fo db B)))) g = Inr s)
       ss (filter (\<lambda>g. \<not> skipped g) (map snd (groupsOf B db fo)))"
  unfolding allSourcesOf_def
proof (rule scoreGroups_Inr)
  show "\<forall>g\<in>set (map snd (groupsOf B db fo)). group_items g \<noteq> []"
    using groupsOf_inv[of db B fo] by (auto simp: groups_inv_def)
qed

lemma aggregateMaterials_returns:
  "\<exists>ss. allSourcesOf B db sm fo = Inr ss \<and>
     aggregateMaterials B db sm fo = Inr (resultOf (resolveDemand fo db B) ss)"
  using allSourcesOf_Inr[of B db sm fo] by (auto simp: aggregateMaterials_unfold)

subsection \<open>The materials of the result\<close>

lemma materials_resultOf:
  "materials (resultOf st ss) =
     js_sort (\<lambda>a b. Fin (real_of_int (totalQuantity b - totalQuantity a))) (buildMaterials st)"
  by (simp add: resultOf_def Let_def)

subsection \<open>Recipe edges without an item row\<close>

lemma addRecipe_missing:
  assumes "demand_inv db st" "itemById db (ingredient_id e) = None"
  shows "addRecipe fo db i e st = st"
proof -
  from assms have "map_of (materialItemsMap st) (ingredient_id e) = None"
    by (cases "map_of (materialItemsMap st) (ingredient_id e)") (auto simp: demand_inv_def)
  with assms(2) show ?thesis by (simp add: addRecipe_def)
qed

lemma itemById_recipes [simp]: "itemById (db\<lparr>crafting_recipes := rs\<rparr>) = itemById db"
  by (rule ext) (simp add: itemById_def)

lemma addRecipe_recipes [simp]: "addRecipe fo (db\<lparr>crafting_recipes := rs\<rparr>) = addRecipe fo db"
  by (intro ext) (simp only: addRecipe_def itemById_recipes)

lemma demand_inv_recipes [simp]: "demand_inv (db\<lparr>crafting_recipes := rs\<rparr>) st = demand_inv db st"
  by (simp add: demand_inv_def)

lemma addBookmark_missing:
  assumes "demand_inv db st" "itemById db (ingredient_id e) = None"
  shows "addBookmark fo (db\<lparr>crafting_recipes := xs @ e # ys\<rparr>) i st
       = addBookmark fo (db\<lparr>crafting_recipes := xs @ ys\<rparr>) i st"
proof -
  have "demand_inv db (fold (addRecipe fo db i) (filter (\<lambda>r. item_id r = i) xs) st)"
    using assms(1) by (rule fold_addRecipe_inv)
  then show ?thesis
    using assms(2) by (simp add: addBookmark_def recipesFor_def addRecipe_missing)
qed

lemma resolveDemand_missing:
  assumes "itemById db (ingredient_id e) = None"
  shows "resolveDemand fo (db\<lparr>crafting_recipes := xs @ e # ys\<rparr>) B
       = resolveDemand fo (db\<lparr>crafting_recipes := xs @ ys\<rparr>) B"
proof -
  have "demand_inv db st \<Longrightarrow>
      fold (addBookmark fo (db\<lparr>crafting_recipes := xs @ e # ys\<rparr>)) B st
    = fold (addBookmark fo (db\<lparr>crafting_recipes := xs @ ys\<rparr>)) B st" for st
  proof (induction B arbitrary: st)
    case Nil
    then show ?case by simp
  next
    case (Cons b B)
    have "demand_inv db (addBookmark fo (db\<lparr>crafting_recipes := xs @ ys\<rparr>) b st)"
      using addBookmark_inv[of "db\<lparr>crafting_recipes := xs @ ys\<rparr>" st fo b] Cons.prems by simp
    then show ?case
      using Cons.IH Cons.prems assms by (simp add: addBookmark_missing)
  qed
  then show ?thesis
    by (simp add: resolveDemand_def demand_inv_empty)
qed

subsection \<open>The two lists\<close>

lemma fold_splitSource:
  "fold splitSource xs (a, b) = (a @ filter inSalvageBucket xs, b @ filter inRecycleBucket xs)"
proof (induction xs arbitrary: a b)
  case Nil
  then show ?case by simp
next
  case (Cons x xs)
  have "splitSource x (a, b) =
     (a @ filter inSalvageBucket [x], b @ filter inRecycleBucket [x])"
    by (simp add: splitSource_def inSalvageBucket_def inRecycleBucket_def bothZero_def)
  then show ?case using Cons.IH by simp
qed

lemma salvageSources_resultOf:
  "set (salvageSources (resultOf st ss)) = {s \<in> set ss. inSalvageBucket s}"
  by (simp add: resultOf_def Let_def fold_splitSource set_js_sort)

lemma recycleSources_resultOf:
  "set (recycleSources (resultOf st ss)) = {s \<in> set ss. inRecycleBucket s}"
  by (simp add: resultOf_def Let_def fold_splitSource set_js_sort)

lemma js_gt_not_eq: "js_gt a (Fin 0) \<Longrightarrow> \<not> js_strict_eq a (Fin 0)"
  by (cases a) auto

subsection \<open>Where the sources come from\<close>

lemma scoreGroup_item:
  "scoreGroup sm db qm td g = Inr s \<Longrightarrow> source_item s \<in> set (group_items g)"
  by (cases "group_items g") (auto simp: scoreGroup_def Let_def)

lemma list_all2_left_ex:
  "list_all2 P xs ys \<Longrightarrow> x \<in> set xs \<Longrightarrow> \<exists>y\<in>set ys. P x y"
  by (induction rule: list_all2_induct) auto

lemma groups_invD:
  "groups_inv P gs \<Longrightarrow> (k, g) \<in> set gs \<Longrightarrow> it \<in> set (group_items g) \<Longrightarrow> P k it"
  unfolding groups_inv_def by fastforce

lemma allSources_items:
  assumes "allSourcesOf B db sm fo = Inr ss" "s \<in> set ss"
  shows "\<exists>k. row_ok db (excludedIdsOf B db fo) k (source_item s)"
proof -
  from allSourcesOf_Inr[of B db sm fo] assms(1)
  have "list_all2 (\<lambda>s g. scoreGroup sm db (materialQuantityMap (resolveDemand fo db B))
          (js_sum (map snd (materialQuantityMap (resolveDemand fo db B)))) g = Inr s)
       ss (filter (\<lambda>g. \<not> skipped g) (map snd (groupsOf B db fo)))"
    by simp
  from list_all2_left_ex[OF this assms(2)]
  obtain g where g: "g \<in> set (map snd (groupsOf B db fo))"
    "scoreGroup sm db (materialQuantityMap (resolveDemand fo db B))
          (js_sum (map snd (materialQuantityMap (resolveDemand fo db B)))) g = Inr s"
    by auto
  from g(1) obtain k where "(k, g) \<in> set (groupsOf B db fo)" by auto
  from groups_invD[OF groupsOf_inv this scoreGroup_item[OF g(2)]] show ?thesis ..
qed

lemma set_excludedIdsOf:
  "set (excludedIdsOf B db fo) =
     set B \<union> fst ` set (materialQuantityMap (resolveDemand fo db B)) \<union>
     (case hiddenSourceItems fo of Some h \<Rightarrow> set h | None \<Rightarrow> {})"
  by (auto simp: excludedIdsOf_def set_new_Set split: option.splits)

lemma itemById_id: "itemById db k = Some it \<Longrightarrow> id_item it = k"
  by (auto simp: itemById_def find_Some_iff)

lemma buildMaterials_ids:
  assumes "demand_inv db st" "m \<in> set (buildMaterials st)"
  shows "id_item (item m) \<in> fst ` set (materialQuantityMap st)"
proof -
  from assms(2) have "\<exists>k q it. (k, q) \<in> set (materialQuantityMap st) \<and>
    map_of (materialItemsMap st) k = Some it \<and> item m = it"
    by (auto simp: buildMaterials_def split: option.splits)
  then obtain k q it where kq: "(k, q) \<in> set (materialQuantityMap st)"
    "map_of (materialItemsMap st) k = Some it" "item m = it"
    by blast
  with assms(1) have "itemById db k = Some it" by (simp add: demand_inv_def)
  then have "id_item it = k" by (rule itemById_id)
  with kq show ?thesis by force
qed

subsection \<open>The recipes table is read by the first step only\<close>

lemma totalYieldWeight_recipes [simp]:
  "totalYieldWeight (db\<lparr>crafting_recipes := rs\<rparr>) = totalYieldWeight db"
  by (intro ext) (simp only: totalYieldWeight_def itemById_recipes)

lemma effectiveWeight_recipes [simp]:
  "effectiveWeight (db\<lparr>crafting_recipes := rs\<rparr>) = effectiveWeight db"
  by (intro ext) (simp only: effectiveWeight_def totalYieldWeight_recipes)

lemma calculateSlotEfficiency_recipes [simp]:
  "calculateSlotEfficiency it ys (db\<lparr>crafting_recipes := rs\<rparr>) = calculateSlotEfficiency it ys db"
  by (simp only: calculateSlotEfficiency_def itemById_recipes)

lemma salvageScoreOf_recipes [simp]:
  "salvageScoreOf sm (db\<lparr>crafting_recipes := rs\<rparr>) = salvageScoreOf sm db"
  by (intro ext)
    (simp only: salvageScoreOf_def effectiveWeight_recipes calculateSlotEfficiency_recipes)

lemma recycleScoreOf_recipes [simp]:
  "recycleScoreOf sm (db\<lparr>crafting_recipes := rs\<rparr>) = recycleScoreOf sm db"
  by (intro ext) (simp only: recycleScoreOf_def calculateSlotEfficiency_recipes)

lemma scoreGroup_recipes [simp]:
  "scoreGroup sm (db\<lparr>crafting_recipes := rs\<rparr>) = scoreGroup sm db"
  by (intro ext) (simp only: scoreGroup_def salvageScoreOf_recipes recycleScoreOf_recipes)

lemma scoreGroups_recipes [simp]:
  "scoreGroups sm (db\<lparr>crafting_recipes := rs\<rparr>) qm td gs = scoreGroups sm db qm td gs"
  by (induction gs) (simp_all split: sum.splits)

lemma discoverSources_recipes [simp]:
  "discoverSources (db\<lparr>crafting_recipes := rs\<rparr>) = discoverSources db"
  by (intro ext) (simp add: discoverSources_def)

lemma aggregateMaterials_recipes:
  assumes "resolveDemand fo (db\<lparr>crafting_recipes := rs\<rparr>) B
         = resolveDemand fo (db\<lparr>crafting_recipes := rs'\<rparr>) B"
  shows "aggregateMaterials B (db\<lparr>crafting_recipes := rs\<rparr>) sm fo
       = aggregateMaterials B (db\<lparr>crafting_recipes := rs'\<rparr>) sm fo"
  unfolding aggregateMaterials_def assms by simp

subsection \<open>The example stores, evaluated\<close>

lemma mixed_eval:
  "aggregateMaterials [''gun''] mixed_store max_yield all_rarities = Inr mixed_result"
  by code_simp

lemma hidden_eval:
  "aggregateMaterials [''gun''] mixed_store max_yield hide_barrel = Inr hidden_result"
  by code_simp

lemma filter_eval:
  "aggregateMaterials [''gun'', ''rifle'', ''knife''] filter_store max_yield common_only
     = Inr filter_result"
  by code_simp

lemma filter_counted:
  "filter (countedEdge [''gun'', ''rifle'', ''knife''] filter_store common_only)
     (crafting_recipes filter_store)
   = [\<lparr>item_id = ''gun'', ingredient_id = ''m'', quantity = 5\<rparr>,
      \<lparr>item_id = ''rifle'', ingredient_id = ''m'', quantity = 3\<rparr>]"
  by code_simp

lemma ghost_missing: "itemById mixed_store (ingredient_id ghost_edge) = None"
  by code_simp

lemma mixed_recipes:
  "mixed_store\<lparr>crafting_recipes := [] @ crafting_recipes mixed_store\<rparr> = mixed_store"
  by simp

text \<open>
  C1, amended. For a bookmark set (each id once), a store and a filter configuration in
  which the absolute values of the quantities of the counted recipe edges add up to at
  most \<open>2 ^ 53\<close>, the total quantities of the materials of the result add up to the
  quantities of the counted edges: the edges of bookmarked, non-paused items whose
  ingredient has an item row that passes the rarity and scrappy filters.
\<close>

theorem total_demand_is_sum_of_included_edges:
  assumes "distinct bookmarkedIds"
    and "sum_list (map (\<lambda>e. \<bar>quantity e\<bar>)
           (filter (countedEdge bookmarkedIds db filterOptions) (crafting_recipes db)))
         \<le> 2 ^ 53"
  shows "\<exists>r. aggregateMaterials bookmarkedIds db scoringMethod filterOptions = Inr r \<and>
     sum_list (map totalQuantity (materials r)) =
     sum_list (map quantity
       (filter (countedEdge bookmarkedIds db filterOptions) (crafting_recipes db)))"
proof -
  obtain ss where r: "aggregateMaterials bookmarkedIds db scoringMethod filterOptions
      = Inr (resultOf (resolveDemand filterOptions db bookmarkedIds) ss)"
    using aggregateMaterials_returns by blast
  have "sum_list (map totalQuantity
          (materials (resultOf (resolveDemand filterOptions db bookmarkedIds) ss)))
      = sum_list (map snd (materialQuantityMap (resolveDemand filterOptions db bookmarkedIds)))"
    by (simp add: materials_resultOf sum_list_js_sort buildMaterials_sum[OF resolveDemand_inv])
  also have "\<dots> = sum_list (map quantity
       (filter (countedEdge bookmarkedIds db filterOptions) (crafting_recipes db)))"
    using assms by (rule resolveDemand_sum)
  finally show ?thesis
    using r by (intro exI conjI)
qed

text \<open>
  C2. Every scored source (the array allSources of the code) follows the threshold rule
  of step 5: with two positive scores it is in the recycle list and not in the salvage
  list when recycleScore / salvageScore > 2.0, and in the salvage list only otherwise; with
  a zero salvage score and a positive recycle score it is in the recycle list; with a
  zero recycle score and a positive salvage score it is in the salvage list; with two
  zero scores it is in neither. The two lists hold scored sources only and are disjoint.
\<close>

theorem bucket_rule:
  "\<exists>allSources r.
     allSourcesOf bookmarkedIds db scoringMethod filterOptions = Inr allSources \<and>
     aggregateMaterials bookmarkedIds db scoringMethod filterOptions = Inr r \<and>
     set (salvageSources r) \<union> set (recycleSources r) \<subseteq> set allSources \<and>
     set (salvageSources r) \<inter> set (recycleSources r) = {} \<and>
     (\<forall>s \<in> set allSources.
        (js_gt (salvageScore s) (Fin 0) \<and> js_gt (recycleScore s) (Fin 0) \<longrightarrow>
           (if js_gt (js_div (recycleScore s) (salvageScore s)) (Fin 2)
            then s \<in> set (recycleSources r) \<and> s \<notin> set (salvageSources r)
            else s \<in> set (salvageSources r) \<and> s \<notin> set (recycleSources r))) \<and>
        (js_strict_eq (salvageScore s) (Fin 0) \<and> js_gt (recycleScore s) (Fin 0) \<longrightarrow>
           s \<in> set (recycleSources r) \<and> s \<notin> set (salvageSources r)) \<and>
        (js_strict_eq (recycleScore s) (Fin 0) \<and> js_gt (salvageScore s) (Fin 0) \<longrightarrow>
           s \<in> set (salvageSources r) \<and> s \<notin> set (recycleSources r)) \<and>
        (js_strict_eq (salvageScore s) (Fin 0) \<and> js_strict_eq (recycleScore s) (Fin 0) \<longrightarrow>
           s \<notin> set (salvageSources r) \<and> s \<notin> set (recycleSources r)))"
proof -
  obtain ss where ss: "allSourcesOf bookmarkedIds db scoringMethod filterOptions = Inr ss"
    and r: "aggregateMaterials bookmarkedIds db scoringMethod filterOptions
      = Inr (resultOf (resolveDemand filterOptions db bookmarkedIds) ss)"
    using aggregateMaterials_returns by blast
  let ?r = "resultOf (resolveDemand filterOptions db bookmarkedIds) ss"
  have sub: "set (salvageSources ?r) \<union> set (recycleSources ?r) \<subseteq> set ss"
    by (auto simp: salvageSources_resultOf recycleSources_resultOf)
  have disjoint: "set (salvageSources ?r) \<inter> set (recycleSources ?r) = {}"
    by (auto simp: salvageSources_resultOf recycleSources_resultOf inSalvageBucket_def)
  have rule: "\<forall>s \<in> set ss.
        (js_gt (salvageScore s) (Fin 0) \<and> js_gt (recycleScore s) (Fin 0) \<longrightarrow>
           (if js_gt (js_div (recycleScore s) (salvageScore s)) (Fin 2)
            then s \<in> set (recycleSources ?r) \<and> s \<notin> set (salvageSources ?r)
            else s \<in> set (salvageSources ?r) \<and> s \<notin> set (recycleSources ?r))) \<and>
        (js_strict_eq (salvageScore s) (Fin 0) \<and> js_gt (recycleScore s) (Fin 0) \<longrightarrow>
           s \<in> set (recycleSources ?r) \<and> s \<notin> set (salvageSources ?r)) \<and>
        (js_strict_eq (recycleScore s) (Fin 0) \<and> js_gt (salvageScore s) (Fin 0) \<longrightarrow>
           s \<in> set (salvageSources ?r) \<and> s \<notin> set (recycleSources ?r)) \<and>
        (js_strict_eq (salvageScore s) (Fin 0) \<and> js_strict_eq (recycleScore s) (Fin 0) \<longrightarrow>
           s \<notin> set (salvageSources ?r) \<and> s \<notin> set (recycleSources ?r))"
    using js_gt_not_eq
    by (auto simp: salvageSources_resultOf recycleSources_resultOf inSalvageBucket_def
        inRecycleBucket_def bothZero_def RECYCLING_THRESHOLD_def)
  from ss r sub disjoint rule show ?thesis
    by (intro exI[of _ ss] exI[of _ ?r] conjI)
qed

text \<open>
  C4. No source of the salvage list or of the recycle list has the id of a bookmarked
  item, of a material of the result, or of a hidden source item.
\<close>

theorem sources_not_excluded:
  "\<exists>r. aggregateMaterials bookmarkedIds db scoringMethod filterOptions = Inr r \<and>
     (\<forall>s \<in> set (salvageSources r) \<union> set (recycleSources r).
        id_item (source_item s) \<notin> set bookmarkedIds \<and>
        id_item (source_item s) \<notin> id_item ` item ` set (materials r) \<and>
        id_item (source_item s) \<notin>
          (case hiddenSourceItems filterOptions of Some h \<Rightarrow> set h | None \<Rightarrow> {}))"
proof -
  obtain ss where ss: "allSourcesOf bookmarkedIds db scoringMethod filterOptions = Inr ss"
    and r: "aggregateMaterials bookmarkedIds db scoringMethod filterOptions
      = Inr (resultOf (resolveDemand filterOptions db bookmarkedIds) ss)"
    using aggregateMaterials_returns by blast
  let ?st = "resolveDemand filterOptions db bookmarkedIds"
  let ?r = "resultOf ?st ss"
  have mats: "id_item ` item ` set (materials ?r) \<subseteq> fst ` set (materialQuantityMap ?st)"
    using buildMaterials_ids[OF resolveDemand_inv]
    by (auto simp: materials_resultOf set_js_sort)
  have "id_item (source_item s) \<notin> set bookmarkedIds \<and>
        id_item (source_item s) \<notin> id_item ` item ` set (materials ?r) \<and>
        id_item (source_item s) \<notin>
          (case hiddenSourceItems filterOptions of Some h \<Rightarrow> set h | None \<Rightarrow> {})"
    if "s \<in> set (salvageSources ?r) \<union> set (recycleSources ?r)" for s
  proof -
    from that have "s \<in> set ss"
      by (auto simp: salvageSources_resultOf recycleSources_resultOf)
    from allSources_items[OF ss this]
    have "id_item (source_item s) \<notin> set (excludedIdsOf bookmarkedIds db filterOptions)"
      by (auto simp: row_ok_def)
    then have "id_item (source_item s) \<notin> set bookmarkedIds"
      "id_item (source_item s) \<notin> fst ` set (materialQuantityMap ?st)"
      "id_item (source_item s) \<notin>
          (case hiddenSourceItems filterOptions of Some h \<Rightarrow> set h | None \<Rightarrow> {})"
      unfolding set_excludedIdsOf by simp_all
    with mats show ?thesis by blast
  qed
  then have "\<forall>s \<in> set (salvageSources ?r) \<union> set (recycleSources ?r).
        id_item (source_item s) \<notin> set bookmarkedIds \<and>
        id_item (source_item s) \<notin> id_item ` item ` set (materials ?r) \<and>
        id_item (source_item s) \<notin>
          (case hiddenSourceItems filterOptions of Some h \<Rightarrow> set h | None \<Rightarrow> {})"
    by (rule ballI)
  with r show ?thesis by (intro exI[of _ ?r] conjI)
qed

text \<open>
  C8. A recipe edge whose ingredient has no row in the items table changes nothing:
  the result is the result for the store without that edge, and it is a result, not an
  exception.
\<close>

theorem missing_ingredient_edge_is_skipped:
  assumes "itemById db (ingredient_id e) = None"
  shows "aggregateMaterials bookmarkedIds (db\<lparr>crafting_recipes := xs @ e # ys\<rparr>)
           scoringMethod filterOptions
         = aggregateMaterials bookmarkedIds (db\<lparr>crafting_recipes := xs @ ys\<rparr>)
             scoringMethod filterOptions
       \<and> (\<exists>r. aggregateMaterials bookmarkedIds (db\<lparr>crafting_recipes := xs @ e # ys\<rparr>)
                  scoringMethod filterOptions = Inr r)"
proof
  show "aggregateMaterials bookmarkedIds (db\<lparr>crafting_recipes := xs @ e # ys\<rparr>)
           scoringMethod filterOptions
         = aggregateMaterials bookmarkedIds (db\<lparr>crafting_recipes := xs @ ys\<rparr>)
             scoringMethod filterOptions"
    by (rule aggregateMaterials_recipes) (rule resolveDemand_missing[OF assms])
  show "\<exists>r. aggregateMaterials bookmarkedIds (db\<lparr>crafting_recipes := xs @ e # ys\<rparr>)
                  scoringMethod filterOptions = Inr r"
    using aggregateMaterials_returns by blast
qed

subsection \<open>The salvage score in the two scoring modes\<close>

lemma RARITY_SALVAGE_PENALTY_Fin:
  assumes "r \<notin> OBJECT_PROTOTYPE_KEYS"
  shows "\<exists>p. 0 < p \<and> RARITY_SALVAGE_PENALTY r = Fin p"
proof -
  have "RARITY_SALVAGE_PENALTY r \<in> {Fin 1, Fin (9 / 10), Fin (8 / 10), Fin (7 / 10), Fin (6 / 10)}"
    using assms unfolding RARITY_SALVAGE_PENALTY_def by (simp only: if_False insert_iff refl simp_thms split: if_split)
  then consider "RARITY_SALVAGE_PENALTY r = Fin 1" | "RARITY_SALVAGE_PENALTY r = Fin (9 / 10)"
    | "RARITY_SALVAGE_PENALTY r = Fin (8 / 10)" | "RARITY_SALVAGE_PENALTY r = Fin (7 / 10)"
    | "RARITY_SALVAGE_PENALTY r = Fin (6 / 10)"
    by blast
  then show ?thesis
  proof cases
    case 1
    have "(0::real) < 1" by simp
    with 1 show ?thesis by blast
  next
    case 2
    have "(0::real) < 9 / 10" by simp
    with 2 show ?thesis by blast
  next
    case 3
    have "(0::real) < 8 / 10" by simp
    with 3 show ?thesis by blast
  next
    case 4
    have "(0::real) < 7 / 10" by simp
    with 4 show ?thesis by blast
  next
    case 5
    have "(0::real) < 6 / 10" by simp
    with 5 show ?thesis by blast
  qed
qed

lemma slotBonus_Fin: "slotBonus (Fin e) = Fin (max 1 (1 + (e - 1) * SLOT_EFFICIENCY_WEIGHT))"
  by (simp add: slotBonus_def js_sub_def max_def)

lemma slotBonus_ge_one: "slotEfficiency \<noteq> NaN \<Longrightarrow> js_ge (slotBonus slotEfficiency) (Fin 1)"
  by (cases slotEfficiency)
    (simp_all add: slotBonus_def js_sub_def js_ge_def signed_inf_def SLOT_EFFICIENCY_WEIGHT_def
      max_def)

lemma avgYield_below_half:
  assumes "0 \<le> t" "2 * t < int n"
  shows "avgYield t n = 0"
proof -
  from assms have n: "0 < real n" by simp
  from assms(2) have "2 * real_of_int t < real n"
    by (metis of_int_less_iff of_int_mult of_int_numeral of_int_of_nat_eq)
  with n have "real_of_int t / real n < 1 / 2"
    by (simp add: divide_less_eq)
  then have upper: "real_of_int t / real n + 1 / 2 < of_int 0 + 1"
    by linarith
  from assms(1) n have "0 \<le> real_of_int t / real n" by simp
  then have lower: "of_int 0 \<le> real_of_int t / real n + 1 / 2"
    by simp
  show ?thesis
    unfolding avgYield_def using lower upper by (rule floor_unique)
qed

lemma baseScore_pos_yields:
  "0 < baseScore qm td ys \<Longrightarrow> 0 < js_sum (map snd ys)"
  by (simp add: baseScore_def split: if_splits)

lemma js_sum_Nil: "js_sum [] = 0"
  by (simp add: js_sum_def)

lemma calculateSlotEfficiency_Fin:
  assumes "0 < js_sum (map snd ys)" "stackSizeOf (Some it) \<noteq> 0"
  shows "\<exists>e. calculateSlotEfficiency it ys db = Fin e"
proof -
  from assms(1) have "ys \<noteq> []"
    by (auto simp: js_sum_Nil)
  with assms show ?thesis
    by (simp add: calculateSlotEfficiency_def Let_def)
qed

lemma salvageScoreOf_Fin:
  assumes "effectiveWeight db rep ys \<noteq> 0" "calculateSlotEfficiency rep ys db = Fin e"
    and "RARITY_SALVAGE_PENALTY (rarity rep) = Fin p"
  shows "salvageScoreOf sm db qm td rep ys =
     Fin (baseScore qm td ys /
            (if sm = weight_conscious then (effectiveWeight db rep ys)\<^sup>2
             else effectiveWeight db rep ys)
          * p * IMMEDIACY_BONUS
          * max 1 (1 + (e - 1) * SLOT_EFFICIENCY_WEIGHT))"
  using assms by (simp add: salvageScoreOf_def Let_def slotBonus_Fin)

lemma salvage_score_halves:
  assumes w: "effectiveWeight db rep ys = 2"
    and b: "0 < baseScore qm td ys"
    and st: "stackSizeOf (Some rep) \<noteq> 0"
    and ra: "rarity rep \<notin> OBJECT_PROTOTYPE_KEYS"
  shows "\<exists>x. 0 < x \<and> salvageScoreOf max_yield db qm td rep ys = Fin x \<and>
     salvageScoreOf weight_conscious db qm td rep ys = Fin (x / 2)"
proof -
  let ?b = "baseScore qm td ys"
  obtain e where e: "calculateSlotEfficiency rep ys db = Fin e"
    using calculateSlotEfficiency_Fin[OF baseScore_pos_yields[OF b] st] by blast
  obtain p where p: "0 < p" "RARITY_SALVAGE_PENALTY (rarity rep) = Fin p"
    using RARITY_SALVAGE_PENALTY_Fin[OF ra] by blast
  let ?m = "max 1 (1 + (e - 1) * SLOT_EFFICIENCY_WEIGHT)"
  let ?x = "?b / 2 * p * IMMEDIACY_BONUS * ?m"
  have m: "0 < ?m"
    by (simp add: max_def)
  from b p(1) m have x: "0 < ?x"
    by (simp add: IMMEDIACY_BONUS_def)
  from w have wne: "effectiveWeight db rep ys \<noteq> 0"
    by simp
  have my: "salvageScoreOf max_yield db qm td rep ys = Fin ?x"
    using salvageScoreOf_Fin[OF wne e p(2), of max_yield qm td]
    by (simp only: ScoringMethod.distinct if_False w)
  have "salvageScoreOf weight_conscious db qm td rep ys
      = Fin (?b / 2\<^sup>2 * p * IMMEDIACY_BONUS * ?m)"
    using salvageScoreOf_Fin[OF wne e p(2), of weight_conscious qm td]
    by (simp only: refl if_True w)
  also have "?b / 2\<^sup>2 * p * IMMEDIACY_BONUS * ?m = ?x / 2"
    by (simp add: power2_eq_square)
  finally show ?thesis
    using x my by blast
qed

lemma scoreGroup_fields:
  assumes "scoreGroup sm db qm td g = Inr s"
  shows "\<exists>rep rest. group_items g = rep # rest \<and> source_item s = rep \<and>
     salvageYields s = avgYields qm (length (group_items g)) (salvageYieldsMap g) \<and>
     recycleYields s = avgYields qm (length (group_items g)) (recycleYieldsMap g) \<and>
     salvageScore s = salvageScoreOf sm db qm td rep (salvageYields s) \<and>
     recycleScore s = recycleScoreOf sm db qm td rep (recycleYields s) \<and>
     baseName s = group_baseName g"
  using assms by (cases "group_items g") (auto simp: scoreGroup_def Let_def)

text \<open>
  C5, amended. Take a store with no negative weight, a demand with no negative quantity
  and a source group with no negative averaged salvage yield, whose effective salvage
  weight (the total weight of its averaged salvage yields, or the representative's
  weight_kg when that total is not positive) is 2, whose salvageBaseScore is positive,
  whose representative has a stack size other than 0 and a rarity that is not the name of
  a member of Object.prototype. Switching scoringMethod from max_yield to
  weight_conscious leaves the representative item and the yields as they are and
  strictly decreases the salvageScore.
\<close>

theorem weight_conscious_lowers_salvage_score:
  assumes "scoreGroup max_yield db quantityMap totalDemand g = Inr s1"
    and "scoreGroup weight_conscious db quantityMap totalDemand g = Inr s2"
    and "effectiveWeight db (source_item s1) (salvageYields s1) = 2"
    and "0 < baseScore quantityMap totalDemand (salvageYields s1)"
    and "stackSizeOf (Some (source_item s1)) \<noteq> 0"
    and "rarity (source_item s1) \<notin> OBJECT_PROTOTYPE_KEYS"
    and "\<forall>it \<in> set (items db). 0 \<le> weight_kg it"
    and "\<forall>q \<in> set quantityMap. 0 \<le> snd q"
    and "\<forall>y \<in> set (salvageYields s1). 0 \<le> snd y"
  shows "source_item s2 = source_item s1 \<and> salvageYields s2 = salvageYields s1 \<and>
     js_gt (salvageScore s1) (salvageScore s2)"
proof -
  from scoreGroup_fields[OF assms(1)] scoreGroup_fields[OF assms(2)]
  have same: "source_item s2 = source_item s1" "salvageYields s2 = salvageYields s1"
    and s1: "salvageScore s1 = salvageScoreOf max_yield db quantityMap totalDemand
        (source_item s1) (salvageYields s1)"
    and s2: "salvageScore s2 = salvageScoreOf weight_conscious db quantityMap totalDemand
        (source_item s1) (salvageYields s1)"
    by auto
  obtain x where x: "0 < x"
    and my: "salvageScoreOf max_yield db quantityMap totalDemand
        (source_item s1) (salvageYields s1) = Fin x"
    and wc: "salvageScoreOf weight_conscious db quantityMap totalDemand
        (source_item s1) (salvageYields s1) = Fin (x / 2)"
    using salvage_score_halves[OF assms(3,4,5,6)] by blast
  from x have "js_gt (salvageScore s1) (salvageScore s2)"
    unfolding s1 s2 my wc by simp
  with same show ?thesis
    by (intro conjI)
qed

lemma heavy_max_yield:
  "scoreGroup max_yield mixed_store [(''m'', 5)] 5 heavy_group = Inr (heavy_source (Fin (12 / 5)))"
  by code_simp

lemma heavy_weight_conscious:
  "scoreGroup weight_conscious mixed_store [(''m'', 5)] 5 heavy_group
     = Inr (heavy_source (Fin (6 / 5)))"
  by code_simp

lemma heavy_weight:
  "effectiveWeight mixed_store (example_item ''c'' ''Crate'' 2) [(''m'', 4)] = 2"
  by code_simp

lemma heavy_base: "baseScore [(''m'', 5)] 5 [(''m'', 4)] = 4"
  by code_simp

lemma heavy_stack: "stackSizeOf (Some (example_item ''c'' ''Crate'' 2)) = 1"
  by code_simp

lemma heavy_rarity:
  "rarity (example_item ''c'' ''Crate'' 2) \<notin> OBJECT_PROTOTYPE_KEYS"
  by code_simp

lemma heavy_weights: "\<forall>it \<in> set (items mixed_store). 0 \<le> weight_kg it"
  by code_simp

lemma heavy_demand: "\<forall>q \<in> set [(''m'', 5 :: int)]. 0 \<le> snd q"
  by simp

lemma heavy_yields: "\<forall>y \<in> set [(''m'', 4 :: int)]. 0 \<le> snd y"
  by simp

theorem weight_conscious_lowers_salvage_score_witness:
  "scoreGroup max_yield mixed_store [(''m'', 5)] 5 heavy_group
     = Inr (heavy_source (Fin (12 / 5))) \<and>
   scoreGroup weight_conscious mixed_store [(''m'', 5)] 5 heavy_group
     = Inr (heavy_source (Fin (6 / 5))) \<and>
   effectiveWeight mixed_store (example_item ''c'' ''Crate'' 2) [(''m'', 4)] = 2 \<and>
   baseScore [(''m'', 5)] 5 [(''m'', 4)] = 4 \<and>
   stackSizeOf (Some (example_item ''c'' ''Crate'' 2)) = 1 \<and>
   rarity (example_item ''c'' ''Crate'' 2) \<notin> OBJECT_PROTOTYPE_KEYS \<and>
   js_gt (Fin (12 / 5)) (Fin (6 / 5))"
proof -
  have fields: "source_item (heavy_source (Fin (12 / 5))) = example_item ''c'' ''Crate'' 2"
    "salvageYields (heavy_source (Fin (12 / 5))) = [(''m'', 4)]"
    "salvageScore (heavy_source (Fin (12 / 5))) = Fin (12 / 5)"
    "salvageScore (heavy_source (Fin (6 / 5))) = Fin (6 / 5)"
    by (simp_all add: heavy_source_def)
  have w: "effectiveWeight mixed_store (source_item (heavy_source (Fin (12 / 5))))
      (salvageYields (heavy_source (Fin (12 / 5)))) = 2"
    unfolding fields by (rule heavy_weight)
  have b: "0 < baseScore [(''m'', 5)] 5 (salvageYields (heavy_source (Fin (12 / 5))))"
    unfolding fields heavy_base by simp
  have st: "stackSizeOf (Some (source_item (heavy_source (Fin (12 / 5))))) \<noteq> 0"
    unfolding fields heavy_stack by simp
  have ra: "rarity (source_item (heavy_source (Fin (12 / 5)))) \<notin> OBJECT_PROTOTYPE_KEYS"
    unfolding fields by (rule heavy_rarity)
  have ys: "\<forall>y \<in> set (salvageYields (heavy_source (Fin (12 / 5)))). 0 \<le> snd y"
    unfolding fields by (rule heavy_yields)
  have "js_gt (salvageScore (heavy_source (Fin (12 / 5))))
      (salvageScore (heavy_source (Fin (6 / 5))))"
    using weight_conscious_lowers_salvage_score[OF heavy_max_yield heavy_weight_conscious
        w b st ra heavy_weights heavy_demand ys]
    by (rule conjunct2[THEN conjunct2])
  then have "js_gt (Fin (12 / 5)) (Fin (6 / 5))"
    unfolding fields .
  with heavy_max_yield heavy_weight_conscious heavy_weight heavy_base heavy_stack heavy_rarity
  show ?thesis by (intro conjI)
qed

subsection \<open>The relationship maps\<close>

lemma listed_update:
  "listed (AList.update k v al) k' = (if k' = k then set v else listed al k')"
  by (simp add: listed_def AList.update_conv')

lemma indexMaterial_fst:
  "fst (indexMaterial sid a acc) =
     AList.update a (set_add sid (case map_of (fst acc) a of Some l \<Rightarrow> l | None \<Rightarrow> []))
       (fst acc)"
  by (simp add: indexMaterial_def Let_def)

lemma indexMaterial_snd: "snd (indexMaterial sid a acc) = set_add a (snd acc)"
  by (simp add: indexMaterial_def Let_def)

lemma listed_indexMaterial:
  "listed (fst (indexMaterial sid a acc)) k =
     (if k = a then insert sid (listed (fst acc) k) else listed (fst acc) k)"
proof -
  have "set (case map_of (fst acc) a of Some l \<Rightarrow> l | None \<Rightarrow> []) = listed (fst acc) a"
    by (simp add: listed_def split: option.splits)
  then show ?thesis
    by (simp add: indexMaterial_fst listed_update set_set_add)
qed

lemma fold_indexMaterial_fst:
  "listed (fst (fold (indexMaterial sid) ms acc)) m =
     (if m \<in> set ms then insert sid (listed (fst acc) m) else listed (fst acc) m)"
proof (induction ms arbitrary: acc)
  case Nil
  then show ?case by simp
next
  case (Cons a ms)
  have "listed (fst (fold (indexMaterial sid) (a # ms) acc)) m =
      (if m \<in> set ms then insert sid (listed (fst (indexMaterial sid a acc)) m)
       else listed (fst (indexMaterial sid a acc)) m)"
    using Cons.IH[of "indexMaterial sid a acc"] by simp
  also have "\<dots> = (if m \<in> set (a # ms) then insert sid (listed (fst acc) m)
       else listed (fst acc) m)"
    unfolding listed_indexMaterial by (cases "m = a"; cases "m \<in> set ms") simp_all
  finally show ?case .
qed

lemma fold_indexMaterial_snd:
  "set (snd (fold (indexMaterial sid) ms acc)) = set (snd acc) \<union> set ms"
proof (induction ms arbitrary: acc)
  case Nil
  then show ?case by simp
next
  case (Cons a ms)
  have "set (snd (fold (indexMaterial sid) (a # ms) acc))
      = set (snd (indexMaterial sid a acc)) \<union> set ms"
    using Cons.IH[of "indexMaterial sid a acc"] by simp
  then show ?case
    by (simp add: indexMaterial_snd set_set_add)
qed

lemma fold_indexMaterial_snd_distinct:
  "distinct (snd acc) \<Longrightarrow> distinct (snd (fold (indexMaterial sid) ms acc))"
proof (induction ms arbitrary: acc)
  case Nil
  then show ?case by simp
next
  case (Cons a ms)
  from Cons.prems have "distinct (snd (indexMaterial sid a acc))"
    by (simp add: indexMaterial_snd distinct_set_add)
  from Cons.IH[OF this] show ?case by simp
qed

lemma indexMaterial_lists_distinct:
  assumes "\<forall>m l. map_of (fst acc) m = Some l \<longrightarrow> distinct l"
  shows "\<forall>m l. map_of (fst (indexMaterial sid a acc)) m = Some l \<longrightarrow> distinct l"
proof (intro allI impI)
  fix m l
  assume ml: "map_of (fst (indexMaterial sid a acc)) m = Some l"
  have da: "distinct (case map_of (fst acc) a of Some l \<Rightarrow> l | None \<Rightarrow> [])"
  proof (cases "map_of (fst acc) a")
    case None
    then show ?thesis by simp
  next
    case (Some l')
    with assms have "distinct l'" by blast
    with Some show ?thesis by simp
  qed
  show "distinct l"
  proof (cases "m = a")
    case True
    with ml have "l = set_add sid (case map_of (fst acc) a of Some l \<Rightarrow> l | None \<Rightarrow> [])"
      by (simp add: indexMaterial_fst AList.update_conv')
    with da show ?thesis by (simp add: distinct_set_add)
  next
    case False
    with ml have "map_of (fst acc) m = Some l"
      by (simp add: indexMaterial_fst AList.update_conv')
    with assms show ?thesis by blast
  qed
qed

lemma fold_indexMaterial_lists_distinct:
  "(\<forall>m l. map_of (fst acc) m = Some l \<longrightarrow> distinct l) \<Longrightarrow>
   (\<forall>m l. map_of (fst (fold (indexMaterial sid) ms acc)) m = Some l \<longrightarrow> distinct l)"
proof (induction ms arbitrary: acc)
  case Nil
  then show ?case by (simp only: fold_simps id_apply)
next
  case (Cons a ms)
  from Cons.IH[OF indexMaterial_lists_distinct[OF Cons.prems]] show ?case
    by (simp only: fold_simps comp_apply)
qed

lemma fold_indexMaterial_keys_distinct:
  "distinct (map fst (fst acc)) \<Longrightarrow>
   distinct (map fst (fst (fold (indexMaterial sid) ms acc)))"
proof (induction ms arbitrary: acc)
  case Nil
  then show ?case by simp
next
  case (Cons a ms)
  from Cons.prems have "distinct (map fst (fst (indexMaterial sid a acc)))"
    by (simp add: indexMaterial_fst distinct_update)
  from Cons.IH[OF this] show ?case by simp
qed

lemma indexSource_consistent:
  assumes inv: "maps_consistent maps"
    and fresh: "map_of (snd maps) (id_item (source_item s)) = None"
  shows "maps_consistent (indexSource s maps)"
proof -
  let ?sid = "id_item (source_item s)"
  let ?r = "fold (indexMaterial ?sid) (yieldKeys s) (fst maps, [])"
  have res: "indexSource s maps = (fst ?r, AList.update ?sid (snd ?r) (snd maps))"
    by (simp add: indexSource_def Let_def yieldKeys_def)
  have fstl: "\<And>m. listed (fst ?r) m =
      (if m \<in> set (yieldKeys s) then insert ?sid (listed (fst maps) m) else listed (fst maps) m)"
    by (simp add: fold_indexMaterial_fst)
  have sndl: "set (snd ?r) = set (yieldKeys s)"
    by (simp add: fold_indexMaterial_snd)
  note c = inv[unfolded maps_consistent_def]
  from c have i1: "\<And>m x. x \<in> listed (fst maps) m \<longleftrightarrow> m \<in> listed (snd maps) x"
    by blast
  from c have i2: "\<forall>m l. map_of (fst maps) m = Some l \<longrightarrow> distinct l"
    by blast
  from c have i3: "\<forall>x l. map_of (snd maps) x = Some l \<longrightarrow> distinct l"
    by blast
  from c have i4: "distinct (map fst (fst maps))"
    by blast
  from c have i5: "distinct (map fst (snd maps))"
    by blast
  have nosid: "\<And>m. ?sid \<notin> listed (fst maps) m"
  proof
    fix m assume "?sid \<in> listed (fst maps) m"
    then have "m \<in> listed (snd maps) ?sid" by (simp only: i1)
    with fresh show False by (simp add: listed_def)
  qed
  have agree: "\<forall>m x. x \<in> listed (fst ?r) m \<longleftrightarrow>
      m \<in> listed (AList.update ?sid (snd ?r) (snd maps)) x"
  proof (intro allI)
    fix m x
    show "x \<in> listed (fst ?r) m \<longleftrightarrow> m \<in> listed (AList.update ?sid (snd ?r) (snd maps)) x"
    proof (cases "x = ?sid")
      case True
      then show ?thesis using nosid[of m] by (simp add: fstl listed_update sndl)
    next
      case False
      then show ?thesis by (simp add: fstl listed_update i1)
    qed
  qed
  have "\<forall>m l. map_of (fst (fst maps, [])) m = Some l \<longrightarrow> distinct l"
    unfolding fst_conv by (rule i2)
  then have d1: "\<forall>m l. map_of (fst ?r) m = Some l \<longrightarrow> distinct l"
    by (rule fold_indexMaterial_lists_distinct)
  have dr: "distinct (snd ?r)"
    by (rule fold_indexMaterial_snd_distinct) simp
  have d2: "\<forall>x l. map_of (AList.update ?sid (snd ?r) (snd maps)) x = Some l \<longrightarrow> distinct l"
  proof (intro allI impI)
    fix x l
    assume xl: "map_of (AList.update ?sid (snd ?r) (snd maps)) x = Some l"
    show "distinct l"
    proof (cases "x = ?sid")
      case True
      with xl have "l = snd ?r" by (simp add: AList.update_conv')
      with dr show ?thesis by simp
    next
      case False
      with xl have "map_of (snd maps) x = Some l" by (simp add: AList.update_conv')
      with i3 show ?thesis by blast
    qed
  qed
  have k1: "distinct (map fst (fst ?r))"
    by (rule fold_indexMaterial_keys_distinct) (simp add: i4)
  have k2: "distinct (map fst (AList.update ?sid (snd ?r) (snd maps)))"
    using i5 by (simp add: distinct_update)
  show ?thesis
    unfolding res maps_consistent_def fst_conv snd_conv
    using agree d1 d2 k1 k2 by (intro conjI)
qed

lemma indexSource_keys:
  "map_of (snd (indexSource s maps)) k =
     (if k = id_item (source_item s) then map_of (snd (indexSource s maps)) k
      else map_of (snd maps) k)"
  by (simp add: indexSource_def Let_def AList.update_conv')

lemma fold_indexSource_consistent:
  "distinct (map (\<lambda>s. id_item (source_item s)) srcs) \<Longrightarrow> maps_consistent maps \<Longrightarrow>
   (\<forall>s\<in>set srcs. map_of (snd maps) (id_item (source_item s)) = None) \<Longrightarrow>
   maps_consistent (fold indexSource srcs maps)"
proof (induction srcs arbitrary: maps)
  case Nil
  then show ?case by simp
next
  case (Cons s srcs)
  have inv: "maps_consistent (indexSource s maps)"
    using Cons.prems by (intro indexSource_consistent) simp_all
  have fresh: "\<forall>t\<in>set srcs. map_of (snd (indexSource s maps)) (id_item (source_item t)) = None"
  proof
    fix t assume t: "t \<in> set srcs"
    from Cons.prems(1) have "id_item (source_item s) \<notin> (\<lambda>s. id_item (source_item s)) ` set srcs"
      by simp
    with t have "id_item (source_item t) \<noteq> id_item (source_item s)"
      by (auto simp: image_iff)
    with Cons.prems(3) t show "map_of (snd (indexSource s maps)) (id_item (source_item t)) = None"
      by (subst indexSource_keys) simp
  qed
  from Cons.prems(1) have "distinct (map (\<lambda>s. id_item (source_item s)) srcs)" by simp
  from Cons.IH[OF this inv fresh] show ?case by simp
qed

lemma maps_consistent_empty: "maps_consistent ([], [])"
  by (simp add: maps_consistent_def listed_def)

subsection \<open>One source per item id\<close>

lemma primary_key_unique:
  assumes "distinct (map id_item its)" "a \<in> set its" "b \<in> set its" "id_item a = id_item b"
  shows "a = b"
proof -
  from assms(1) have "inj_on id_item (set its)"
    by (simp add: distinct_map)
  from inj_onD[OF this assms(4) assms(2) assms(3)] show ?thesis .
qed

lemma group_representative:
  assumes "groups_inv (row_ok db ex) gs" "(k, g) \<in> set gs"
  shows "hd (group_items g) \<in> set (items db) \<and> getBaseName (name (hd (group_items g))) = k"
proof -
  from assms have ne: "group_items g \<noteq> []"
    unfolding groups_inv_def by fastforce
  then have "hd (group_items g) \<in> set (group_items g)"
    by simp
  from groups_invD[OF assms this] show ?thesis
    by (simp add: row_ok_def)
qed

lemma representative_ids_distinct:
  assumes pk: "distinct (map id_item (items db))"
    and inv: "groups_inv (row_ok db ex) gs"
  shows "distinct (map (\<lambda>g. id_item (hd (group_items g))) (map snd gs))"
proof -
  from inv have keys: "distinct (map fst gs)"
    by (simp add: groups_inv_def)
  then have dgs: "distinct gs"
    by (simp add: distinct_map)
  have "inj_on (\<lambda>kg. id_item (hd (group_items (snd kg)))) (set gs)"
  proof (rule inj_onI)
    fix x y
    assume x: "x \<in> set gs" and y: "y \<in> set gs"
      and eq: "id_item (hd (group_items (snd x))) = id_item (hd (group_items (snd y)))"
    obtain k g where xk: "x = (k, g)" by (cases x)
    obtain k' g' where yk: "y = (k', g')" by (cases y)
    from group_representative[OF inv x[unfolded xk]]
    have rx: "hd (group_items g) \<in> set (items db)"
      "getBaseName (name (hd (group_items g))) = k" by simp_all
    from group_representative[OF inv y[unfolded yk]]
    have ry: "hd (group_items g') \<in> set (items db)"
      "getBaseName (name (hd (group_items g'))) = k'" by simp_all
    from eq have "id_item (hd (group_items g)) = id_item (hd (group_items g'))"
      by (simp add: xk yk)
    from primary_key_unique[OF pk rx(1) ry(1) this] rx(2) ry(2) have kk: "k = k'"
      by simp
    from x xk keys have "map_of gs k = Some g"
      by (simp add: map_of_eq_Some_iff)
    moreover from y yk kk keys have "map_of gs k = Some g'"
      by (simp add: map_of_eq_Some_iff)
    ultimately have "g = g'" by simp
    with kk show "x = y" by (simp add: xk yk)
  qed
  with dgs have "distinct (map (\<lambda>kg. id_item (hd (group_items (snd kg)))) gs)"
    by (simp add: distinct_map)
  then show ?thesis
    by (simp add: comp_def)
qed

lemma scored_ids:
  "list_all2 (\<lambda>s g. scoreGroup sm db qm td g = Inr s) ss gs \<Longrightarrow>
   map (\<lambda>s. id_item (source_item s)) ss = map (\<lambda>g. id_item (hd (group_items g))) gs"
proof (induction rule: list_all2_induct)
  case Nil
  then show ?case by simp
next
  case (Cons s ss g gs)
  from scoreGroup_fields[OF Cons.hyps(1)] have "source_item s = hd (group_items g)"
    by auto
  with Cons.IH show ?case by simp
qed

lemma allSources_ids_distinct:
  assumes pk: "distinct (map id_item (items db))"
    and ss: "allSourcesOf B db sm fo = Inr ss"
  shows "distinct (map (\<lambda>s. id_item (source_item s)) ss)"
proof -
  from allSourcesOf_Inr[of B db sm fo] ss
  have "list_all2 (\<lambda>s g. scoreGroup sm db (materialQuantityMap (resolveDemand fo db B))
          (js_sum (map snd (materialQuantityMap (resolveDemand fo db B)))) g = Inr s)
       ss (filter (\<lambda>g. \<not> skipped g) (map snd (groupsOf B db fo)))"
    by simp
  from scored_ids[OF this]
  have "map (\<lambda>s. id_item (source_item s)) ss
      = map (\<lambda>g. id_item (hd (group_items g)))
          (filter (\<lambda>g. \<not> skipped g) (map snd (groupsOf B db fo)))" .
  moreover have "distinct (map (\<lambda>g. id_item (hd (group_items g)))
          (filter (\<lambda>g. \<not> skipped g) (map snd (groupsOf B db fo))))"
    by (rule distinct_map_filter) (rule representative_ids_distinct[OF pk groupsOf_inv])
  ultimately show ?thesis by simp
qed

lemma buckets_ids_distinct:
  assumes d: "distinct (map f ss)"
  shows "distinct (map f (js_sort c1 (filter inSalvageBucket ss) @
                          js_sort c2 (filter inRecycleBucket ss)))"
proof -
  from d have inj: "inj_on f (set ss)"
    by (simp add: distinct_map)
  have "f ` {s \<in> set ss. inSalvageBucket s} \<inter> f ` {s \<in> set ss. inRecycleBucket s} = {}"
  proof (rule ccontr)
    assume "f ` {s \<in> set ss. inSalvageBucket s} \<inter> f ` {s \<in> set ss. inRecycleBucket s} \<noteq> {}"
    then obtain a b where a: "a \<in> set ss" "inSalvageBucket a"
      and b: "b \<in> set ss" "inRecycleBucket b" and "f a = f b"
      by auto
    with inj have "a = b" by (auto dest: inj_onD)
    with a b show False by (simp add: inSalvageBucket_def)
  qed
  with d show ?thesis
    by (simp add: distinct_map_js_sort distinct_map_filter set_js_sort)
qed

lemma maps_resultOf:
  "(materialToSources (resultOf st ss), sourceToMaterials (resultOf st ss)) =
     fold indexSource
       (js_sort (\<lambda>a b. js_sub (salvageScore b) (salvageScore a)) (filter inSalvageBucket ss) @
        js_sort (\<lambda>a b. js_sub (recycleScore b) (recycleScore a)) (filter inRecycleBucket ss))
       ([], [])"
  by (simp add: resultOf_def Let_def fold_splitSource)

lemma listed_iff: "x \<in> listed al k \<longleftrightarrow> (\<exists>l. map_of al k = Some l \<and> x \<in> set l)"
  by (cases "map_of al k") (simp_all add: listed_def)

lemma resultOf_maps_consistent:
  assumes "distinct (map (\<lambda>s. id_item (source_item s)) ss)"
  shows "maps_consistent (materialToSources (resultOf st ss), sourceToMaterials (resultOf st ss))"
  unfolding maps_resultOf
proof (rule fold_indexSource_consistent)
  show "distinct (map (\<lambda>s. id_item (source_item s))
     (js_sort (\<lambda>a b. js_sub (salvageScore b) (salvageScore a)) (filter inSalvageBucket ss) @
      js_sort (\<lambda>a b. js_sub (recycleScore b) (recycleScore a)) (filter inRecycleBucket ss)))"
    using assms by (rule buckets_ids_distinct)
  show "maps_consistent ([], [])"
    by (rule maps_consistent_empty)
  show "\<forall>s\<in>set (js_sort (\<lambda>a b. js_sub (salvageScore b) (salvageScore a))
                  (filter inSalvageBucket ss) @
                js_sort (\<lambda>a b. js_sub (recycleScore b) (recycleScore a))
                  (filter inRecycleBucket ss)).
          map_of (snd ([], [])) (id_item (source_item s)) = None"
    by simp
qed

text \<open>
  C6. In a store whose items table has each id once (its primary key), the two
  relationship maps of the result agree: materialToSources[m] contains s exactly when
  sourceToMaterials[s] exists and contains m; no list of either map and no key list has
  a duplicate.
\<close>

theorem relationship_maps_agree:
  assumes "distinct (map id_item (items db))"
  shows "\<exists>r. aggregateMaterials bookmarkedIds db scoringMethod filterOptions = Inr r \<and>
     (\<forall>m s. (\<exists>l. map_of (materialToSources r) m = Some l \<and> s \<in> set l) \<longleftrightarrow>
            (\<exists>l. map_of (sourceToMaterials r) s = Some l \<and> m \<in> set l)) \<and>
     (\<forall>m l. map_of (materialToSources r) m = Some l \<longrightarrow> distinct l) \<and>
     (\<forall>s l. map_of (sourceToMaterials r) s = Some l \<longrightarrow> distinct l) \<and>
     distinct (map fst (materialToSources r)) \<and> distinct (map fst (sourceToMaterials r))"
proof -
  obtain ss where ss: "allSourcesOf bookmarkedIds db scoringMethod filterOptions = Inr ss"
    and r: "aggregateMaterials bookmarkedIds db scoringMethod filterOptions
      = Inr (resultOf (resolveDemand filterOptions db bookmarkedIds) ss)"
    using aggregateMaterials_returns by blast
  let ?r = "resultOf (resolveDemand filterOptions db bookmarkedIds) ss"
  note c = resultOf_maps_consistent[OF allSources_ids_distinct[OF assms ss],
      of "resolveDemand filterOptions db bookmarkedIds",
      unfolded maps_consistent_def fst_conv snd_conv listed_iff]
  from r c show ?thesis
    by (intro exI[of _ ?r] conjI) blast+
qed

subsection \<open>The theorems on the example stores\<close>

theorem total_demand_is_sum_of_included_edges_witness:
  "distinct [''gun'', ''rifle'', ''knife''] \<and>
   filter (countedEdge [''gun'', ''rifle'', ''knife''] filter_store common_only)
     (crafting_recipes filter_store)
   = [\<lparr>item_id = ''gun'', ingredient_id = ''m'', quantity = 5\<rparr>,
      \<lparr>item_id = ''rifle'', ingredient_id = ''m'', quantity = 3\<rparr>] \<and>
   aggregateMaterials [''gun'', ''rifle'', ''knife''] filter_store max_yield common_only
     = Inr filter_result \<and>
   sum_list (map totalQuantity (materials filter_result)) = 8"
proof -
  have d: "distinct [''gun'', ''rifle'', ''knife'']"
    by simp
  have bound: "sum_list (map (\<lambda>e. \<bar>quantity e\<bar>)
           (filter (countedEdge [''gun'', ''rifle'', ''knife''] filter_store common_only)
              (crafting_recipes filter_store))) \<le> 2 ^ 53"
    unfolding filter_counted by simp
  from total_demand_is_sum_of_included_edges[OF d bound, of max_yield]
  obtain r where r: "aggregateMaterials [''gun'', ''rifle'', ''knife''] filter_store max_yield
         common_only = Inr r"
    and total: "sum_list (map totalQuantity (materials r)) =
      sum_list (map quantity
        (filter (countedEdge [''gun'', ''rifle'', ''knife''] filter_store common_only)
           (crafting_recipes filter_store)))"
    by blast
  from r have req: "r = filter_result"
    unfolding filter_eval by (rule Inr_inject[symmetric])
  from total have "sum_list (map totalQuantity (materials filter_result)) = 8"
    unfolding req filter_counted by simp
  with d filter_counted filter_eval show ?thesis
    by (intro conjI)
qed

theorem bucket_rule_witness:
  "aggregateMaterials [''gun''] mixed_store max_yield all_rarities = Inr mixed_result \<and>
   crate_source \<in> set (recycleSources mixed_result) \<and>
   js_gt (salvageScore crate_source) (Fin 0) \<and> js_gt (recycleScore crate_source) (Fin 0) \<and>
   js_gt (js_div (recycleScore crate_source) (salvageScore crate_source)) (Fin 2) \<and>
   crate_source \<notin> set (salvageSources mixed_result) \<and>
   barrel_source \<in> set (salvageSources mixed_result) \<and>
   js_gt (salvageScore barrel_source) (Fin 0) \<and> js_gt (recycleScore barrel_source) (Fin 0) \<and>
   \<not> js_gt (js_div (recycleScore barrel_source) (salvageScore barrel_source)) (Fin 2) \<and>
   barrel_source \<notin> set (recycleSources mixed_result)"
proof -
  have c1: "js_gt (salvageScore crate_source) (Fin 0)"
    and c2: "js_gt (recycleScore crate_source) (Fin 0)"
    and c3: "js_gt (js_div (recycleScore crate_source) (salvageScore crate_source)) (Fin 2)"
    by (simp_all add: crate_source_def)
  have b1: "js_gt (salvageScore barrel_source) (Fin 0)"
    and b2: "js_gt (recycleScore barrel_source) (Fin 0)"
    and b3: "\<not> js_gt (js_div (recycleScore barrel_source) (salvageScore barrel_source)) (Fin 2)"
    by (simp_all add: barrel_source_def)
  have cm: "crate_source \<in> set (recycleSources mixed_result)"
    and bm: "barrel_source \<in> set (salvageSources mixed_result)"
    by (simp_all add: mixed_result_def)
  from bucket_rule[of "[''gun'']" mixed_store max_yield all_rarities]
  obtain ss r where r: "aggregateMaterials [''gun''] mixed_store max_yield all_rarities = Inr r"
    and sub: "set (salvageSources r) \<union> set (recycleSources r) \<subseteq> set ss"
    and rule0: "\<forall>s \<in> set ss.
        (js_gt (salvageScore s) (Fin 0) \<and> js_gt (recycleScore s) (Fin 0) \<longrightarrow>
           (if js_gt (js_div (recycleScore s) (salvageScore s)) (Fin 2)
            then s \<in> set (recycleSources r) \<and> s \<notin> set (salvageSources r)
            else s \<in> set (salvageSources r) \<and> s \<notin> set (recycleSources r)))"
    by blast
  from r have req: "r = mixed_result"
    unfolding mixed_eval by (rule Inr_inject[symmetric])
  from sub rule0
  have rule: "\<forall>s \<in> set (salvageSources mixed_result) \<union> set (recycleSources mixed_result).
        (js_gt (salvageScore s) (Fin 0) \<and> js_gt (recycleScore s) (Fin 0) \<longrightarrow>
           (if js_gt (js_div (recycleScore s) (salvageScore s)) (Fin 2)
            then s \<in> set (recycleSources mixed_result) \<and> s \<notin> set (salvageSources mixed_result)
            else s \<in> set (salvageSources mixed_result) \<and> s \<notin> set (recycleSources mixed_result)))"
    unfolding req by blast
  from cm have "crate_source \<in> set (salvageSources mixed_result) \<union> set (recycleSources mixed_result)"
    by (rule UnI2)
  from bspec[OF rule this] c1 c2 c3
  have cn: "crate_source \<notin> set (salvageSources mixed_result)"
    by (simp only: simp_thms if_True)
  from bm have "barrel_source \<in> set (salvageSources mixed_result) \<union> set (recycleSources mixed_result)"
    by (rule UnI1)
  from bspec[OF rule this] b1 b2 b3
  have bn: "barrel_source \<notin> set (recycleSources mixed_result)"
    by (simp only: simp_thms if_False)
  from mixed_eval cm c1 c2 c3 cn bm b1 b2 b3 bn show ?thesis
    by (intro conjI)
qed

theorem sources_not_excluded_witness:
  "aggregateMaterials [''gun''] mixed_store max_yield hide_barrel = Inr hidden_result \<and>
   crate_source \<in> set (salvageSources hidden_result) \<union> set (recycleSources hidden_result) \<and>
   id_item (source_item crate_source) \<notin> set [''gun''] \<and>
   id_item (source_item crate_source) \<notin> id_item ` item ` set (materials hidden_result) \<and>
   id_item (source_item crate_source) \<notin> set [''b'']"
proof -
  have member: "crate_source \<in> set (salvageSources hidden_result) \<union> set (recycleSources hidden_result)"
    by (simp add: hidden_result_def)
  have hidden: "hiddenSourceItems hide_barrel = Some [''b'']"
    by (simp add: hide_barrel_def)
  from sources_not_excluded[of "[''gun'']" mixed_store max_yield hide_barrel]
  have "\<forall>s \<in> set (salvageSources hidden_result) \<union> set (recycleSources hidden_result).
        id_item (source_item s) \<notin> set [''gun''] \<and>
        id_item (source_item s) \<notin> id_item ` item ` set (materials hidden_result) \<and>
        id_item (source_item s) \<notin> set [''b'']"
    unfolding hidden_eval hidden by (elim exE conjE) (simp only: sum.inject option.case)
  from bspec[OF this member] hidden_eval member show ?thesis
    by (intro conjI) (simp_all only: simp_thms)
qed

theorem missing_ingredient_edge_is_skipped_witness:
  "itemById mixed_store (ingredient_id ghost_edge) = None \<and>
   aggregateMaterials [''gun'']
     (mixed_store\<lparr>crafting_recipes := [] @ ghost_edge # crafting_recipes mixed_store\<rparr>)
     max_yield all_rarities = Inr mixed_result"
  using missing_ingredient_edge_is_skipped
    [OF ghost_missing, of "[''gun'']" "[]" "crafting_recipes mixed_store" max_yield all_rarities]
  by (simp only: mixed_recipes mixed_eval ghost_missing simp_thms)

lemma big_eval:
  "aggregateMaterials [''gun'', ''rifle''] big_store max_yield all_rarities = Inr big_result"
  by code_simp

lemma big_counted:
  "filter (countedEdge [''gun'', ''rifle''] big_store all_rarities) (crafting_recipes big_store)
   = crafting_recipes big_store"
  by code_simp

text \<open>
  C1 fails as stated. The gun needs \<open>2 ^ 53\<close> units of metal and the rifle one more;
  both edges count, and their quantities add up to \<open>2 ^ 53 + 1\<close>. The code adds the two
  doubles and gets \<open>2 ^ 53\<close>, the only total of the result.
\<close>

theorem total_demand_counterexample:
  "aggregateMaterials [''gun'', ''rifle''] big_store max_yield all_rarities = Inr big_result \<and>
   distinct [''gun'', ''rifle''] \<and>
   sum_list (map totalQuantity (materials big_result)) = 9007199254740992 \<and>
   sum_list (map quantity
     (filter (countedEdge [''gun'', ''rifle''] big_store all_rarities)
        (crafting_recipes big_store))) = 9007199254740993"
proof (intro conjI)
  show "aggregateMaterials [''gun'', ''rifle''] big_store max_yield all_rarities = Inr big_result"
    by (rule big_eval)
  show "distinct [''gun'', ''rifle'']"
    by simp
  show "sum_list (map totalQuantity (materials big_result)) = 9007199254740992"
    by (simp add: big_result_def)
  show "sum_list (map quantity
     (filter (countedEdge [''gun'', ''rifle''] big_store all_rarities)
        (crafting_recipes big_store))) = 9007199254740993"
    unfolding big_counted by (simp add: big_store_def)
qed

lemma anvil_eval:
  "aggregateMaterials [''gun''] anvil_store max_yield all_rarities = Inr anvil_result"
  by code_simp

lemma tiers_eval:
  "aggregateMaterials [''gun''] tiers_store max_yield all_rarities = Inr tiers_result"
  by code_simp

lemma wire_eval_max_yield:
  "aggregateMaterials [''gun''] wire_store max_yield all_rarities = Inr (wire_result (Fin 12))"
  by code_simp

lemma wire_eval_weight_conscious:
  "aggregateMaterials [''gun''] wire_store weight_conscious all_rarities
     = Inr (wire_result (Fin 24))"
  by code_simp

lemma avgYield_third: "avgYield 1 3 = 0"
  by code_simp

lemma tiers_slot:
  "calculateSlotEfficiency (example_item ''a1'' ''Anvil I'' 2) [(''m'', 0)] tiers_store = NaN"
  by code_simp

text \<open>
  C10. In the store of the three anvils, the averaged salvage yield of metal is
  \<open>Math.round(1 / 3) = 0\<close>; the source is in the salvage list with that entry, and both
  relationship maps record the metal for it.
\<close>

theorem zero_average_yield_is_indexed:
  "aggregateMaterials [''gun''] anvil_store max_yield all_rarities = Inr anvil_result \<and>
   avgYield 1 3 = 0 \<and>
   map salvageYields (salvageSources anvil_result) = [[(''m'', 0), (''w'', 5)]] \<and>
   map (id_item \<circ> source_item) (salvageSources anvil_result) = [''a1''] \<and>
   map_of (sourceToMaterials anvil_result) ''a1'' = Some [''m'', ''w''] \<and>
   map_of (materialToSources anvil_result) ''m'' = Some [''a1'']"
proof (intro conjI)
  show "aggregateMaterials [''gun''] anvil_store max_yield all_rarities = Inr anvil_result"
    by (rule anvil_eval)
  show "avgYield 1 3 = 0"
    by (rule avgYield_third)
  show "map salvageYields (salvageSources anvil_result) = [[(''m'', 0), (''w'', 5)]]"
    by (simp add: anvil_result_def)
  show "map (id_item \<circ> source_item) (salvageSources anvil_result) = [''a1'']"
    by (simp add: anvil_result_def example_item_def)
  show "map_of (sourceToMaterials anvil_result) ''a1'' = Some [''m'', ''w'']"
    by (simp add: anvil_result_def)
  show "map_of (materialToSources anvil_result) ''m'' = Some [''a1'']"
    by (simp add: anvil_result_def)
qed

text \<open>
  C3, at a failing input. In the store of the anvil tiers the averaged salvage yield is
  0, the slot efficiency is 0 / 0, and the source enters the salvage list with the salvage
  score NaN, which is not \<open>\<ge> 0\<close>.
\<close>

theorem nan_salvage_score_in_salvage_list:
  "aggregateMaterials [''gun''] tiers_store max_yield all_rarities = Inr tiers_result \<and>
   map salvageScore (salvageSources tiers_result) = [NaN] \<and>
   \<not> js_ge NaN (Fin 0)"
proof (intro conjI)
  show "aggregateMaterials [''gun''] tiers_store max_yield all_rarities = Inr tiers_result"
    by (rule tiers_eval)
  show "map salvageScore (salvageSources tiers_result) = [NaN]"
    by (simp add: tiers_result_def)
  show "\<not> js_ge NaN (Fin 0)"
    by (simp add: js_ge_def)
qed

text \<open>
  C9, at a failing input. For the same source the slot efficiency of the salvage pass is
  NaN and so is the bonus factor: it is not \<open>\<ge> 1\<close>, and the score 0 multiplied by it is
  NaN.
\<close>

theorem slot_bonus_nan:
  "calculateSlotEfficiency (example_item ''a1'' ''Anvil I'' 2) [(''m'', 0)] tiers_store = NaN \<and>
   slotBonus (calculateSlotEfficiency (example_item ''a1'' ''Anvil I'' 2) [(''m'', 0)] tiers_store)
     = NaN \<and>
   \<not> js_ge NaN (Fin 1) \<and>
   js_mul (Fin 0) NaN = NaN"
proof (intro conjI)
  show "calculateSlotEfficiency (example_item ''a1'' ''Anvil I'' 2) [(''m'', 0)] tiers_store = NaN"
    by (rule tiers_slot)
  show "slotBonus (calculateSlotEfficiency (example_item ''a1'' ''Anvil I'' 2) [(''m'', 0)]
          tiers_store) = NaN"
    unfolding tiers_slot by (simp add: slotBonus_def js_sub_def)
  show "\<not> js_ge NaN (Fin 1)"
    by (simp add: js_ge_def)
  show "js_mul (Fin 0) NaN = NaN"
    by simp
qed

text \<open>
  C5 fails as stated. The crate has \<open>weight_kg = 2\<close> and salvages into wire weighing
  0.5 in total; the weight factor is that yield weight, so switching from
  \<open>max_yield\<close> to \<open>weight_conscious\<close> raises the salvage score from 12 to 24.
\<close>

theorem weight_conscious_counterexample:
  "aggregateMaterials [''gun''] wire_store max_yield all_rarities = Inr (wire_result (Fin 12)) \<and>
   aggregateMaterials [''gun''] wire_store weight_conscious all_rarities
     = Inr (wire_result (Fin 24)) \<and>
   map (weight_kg \<circ> source_item) (salvageSources (wire_result (Fin 12))) = [2] \<and>
   \<not> js_gt (Fin 12) (Fin 24)"
proof (intro conjI)
  show "aggregateMaterials [''gun''] wire_store max_yield all_rarities
      = Inr (wire_result (Fin 12))"
    by (rule wire_eval_max_yield)
  show "aggregateMaterials [''gun''] wire_store weight_conscious all_rarities
      = Inr (wire_result (Fin 24))"
    by (rule wire_eval_weight_conscious)
  show "map (weight_kg \<circ> source_item) (salvageSources (wire_result (Fin 12))) = [2]"
    by (simp add: wire_result_def example_item_def)
  show "\<not> js_gt (Fin 12) (Fin 24)"
    by simp
qed

lemma mixed_primary_key: "distinct (map id_item (items mixed_store))"
  by (simp add: mixed_store_def example_item_def)

theorem relationship_maps_agree_witness:
  "distinct (map id_item (items mixed_store)) \<and>
   aggregateMaterials [''gun''] mixed_store max_yield all_rarities = Inr mixed_result \<and>
   map_of (materialToSources mixed_result) ''m'' = Some [''b'', ''c''] \<and>
   ''c'' \<in> set [''b'', ''c''] \<and>
   (\<exists>l. map_of (sourceToMaterials mixed_result) ''c'' = Some l \<and> ''m'' \<in> set l)"
proof -
  from relationship_maps_agree[OF mixed_primary_key, of "[''gun'']" max_yield all_rarities]
  obtain r where r: "aggregateMaterials [''gun''] mixed_store max_yield all_rarities = Inr r"
    and ag: "\<forall>m s. (\<exists>l. map_of (materialToSources r) m = Some l \<and> s \<in> set l) \<longleftrightarrow>
            (\<exists>l. map_of (sourceToMaterials r) s = Some l \<and> m \<in> set l)"
    by blast
  from r have "r = mixed_result"
    unfolding mixed_eval by (rule Inr_inject[symmetric])
  with ag
  have "\<forall>m s. (\<exists>l. map_of (materialToSources mixed_result) m = Some l \<and> s \<in> set l) \<longleftrightarrow>
            (\<exists>l. map_of (sourceToMaterials mixed_result) s = Some l \<and> m \<in> set l)"
    by (rule subst[rotated])
  then have agree:
    "(\<exists>l. map_of (materialToSources mixed_result) ''m'' = Some l \<and> ''c'' \<in> set l) \<longleftrightarrow>
     (\<exists>l. map_of (sourceToMaterials mixed_result) ''c'' = Some l \<and> ''m'' \<in> set l)"
    by (elim allE)
  have lhs: "map_of (materialToSources mixed_result) ''m'' = Some [''b'', ''c'']"
    by (simp add: mixed_result_def)
  have mem: "''c'' \<in> set [''b'', ''c'']"
    by simp
  from lhs mem have "\<exists>l. map_of (materialToSources mixed_result) ''m'' = Some l \<and> ''c'' \<in> set l"
    by (intro exI conjI)
  with agree have "\<exists>l. map_of (sourceToMaterials mixed_result) ''c'' = Some l \<and> ''m'' \<in> set l"
    by (rule iffD1)
  with mixed_primary_key mixed_eval lhs mem show ?thesis
    by (intro conjI)
qed

end
